theory Spec2Isabelle
  imports Main "HOL-Library.Word"
begin

unbundle bit_operations_syntax

section \<open>Block-group accounting of fs/btrfs/block-group.c\<close>

text \<open>
  The development embeds the accounting, registry, caching-scan, profile-reduction and
  reclaim code of \<^verbatim>\<open>fs/btrfs/block-group.c\<close>.  Counters declared \<^verbatim>\<open>u64\<close> in the
  kernel are 64-bit words, so every \<^verbatim>\<open>+=\<close> and \<^verbatim>\<open>-=\<close> wraps as in C.  Spin locks,
  tracing, wake-ups of sleeping tasks and the disk-cache bookkeeping are left out: each
  modelled function is the sequential body that runs under the locks it takes.
\<close>

subsection \<open>Data model\<close>

type_synonym u64 = "64 word"
type_synonym u32 = "32 word"

datatype errno = EEXIST | ENOENT | EAGAIN | ENOSPC | ETXTBSY

text \<open>
  The outcome of a call: \<open>Ok s\<close> is a return of 0 (or \<open>true\<close>) with the state \<open>s\<close> the
  call leaves behind; \<open>Err e s\<close> is a return of \<open>-e\<close> (or \<open>false\<close>) together with the
  state the call leaves behind; \<open>Bug\<close> is a failed \<^verbatim>\<open>ASSERT\<close> or \<^verbatim>\<open>BUG_ON\<close>.
\<close>

datatype 'a result = Ok 'a | Err errno 'a | Bug

datatype btrfs_block_group_size_class =
  BTRFS_BG_SZ_NONE | BTRFS_BG_SZ_SMALL | BTRFS_BG_SZ_MEDIUM | BTRFS_BG_SZ_LARGE

text \<open>Which of the lists threaded through \<^verbatim>\<open>bg_list\<close> a group is on, if any.\<close>

datatype bg_list_state = Not_Listed | On_Unused_Bgs | On_Reclaim_Bgs | On_New_Bgs

text \<open>
  A space info.  \<open>tickets\<close> is the queue of waiting reservation tickets, oldest first,
  each with the number of bytes it asks for.
\<close>

record btrfs_space_info =
  flags :: u64
  total_bytes :: u64
  bytes_used :: u64
  bytes_reserved :: u64
  bytes_pinned :: u64
  bytes_readonly :: u64
  bytes_zone_unusable :: u64
  bytes_may_use :: u64
  disk_used :: u64
  max_extent_size :: u64
  bg_reclaim_threshold :: u32
  tickets :: "u64 list"

record btrfs_balance_args =
  flags :: u64
  target :: u64

record btrfs_balance_control =
  data :: btrfs_balance_args
  sys :: btrfs_balance_args
  meta :: btrfs_balance_args

record btrfs_raid_attr =
  devs_min :: u64
  bg_flag :: u64

record btrfs_key =
  objectid :: u64
  type :: "8 word"
  offset :: u64

text \<open>
  A block group.  \<open>space_info_id\<close> stands for the pointer \<^verbatim>\<open>space_info\<close> to the space
  info of the group's class: it is an index into a store of space infos; \<open>on_ro_list\<close>,
  \<open>on_dirty_list\<close> and \<open>bg_list\<close> say which lists the embedded list heads
  \<^verbatim>\<open>ro_list\<close>, \<^verbatim>\<open>dirty_list\<close> and \<^verbatim>\<open>bg_list\<close> are linked into.  The
  read-only counter is an \<^verbatim>\<open>unsigned int\<close>; \<open>swap_extents\<close> is a C \<^verbatim>\<open>int\<close>, whose
  overflow is undefined, and is modelled without a bound, as is the reference count.
\<close>

record btrfs_block_group =
  start :: u64
  length_bg :: u64
  flags :: u64
  used :: u64
  reserved :: u64
  pinned :: u64
  bytes_super :: u64
  zone_unusable :: u64
  delalloc_bytes :: u64
  alloc_offset :: u64
  zone_capacity :: u64
  ro :: u32
  swap_extents :: int
  size_class :: btrfs_block_group_size_class
  refs :: nat
  on_ro_list :: bool
  on_dirty_list :: bool
  bg_list :: bg_list_state
  flag_new :: bool
  space_info_id :: nat

text \<open>
  What the functions read from \<^verbatim>\<open>fs_info\<close> and from helpers defined outside this file:
  whether the filesystem is zoned, the \<^verbatim>\<open>DISCARD_ASYNC\<close> mount option, the answer of
  \<^verbatim>\<open>btrfs_can_overcommit\<close> (space-info.c) and \<^verbatim>\<open>btrfs_bg_type_to_factor\<close> (volumes.h).
\<close>

record fs_env =
  is_zoned :: bool
  discard_async :: bool
  can_overcommit :: "btrfs_space_info \<Rightarrow> u64 \<Rightarrow> bool"
  bg_type_to_factor :: "u64 \<Rightarrow> u64"

type_synonym bg_state = "btrfs_block_group \<times> btrfs_space_info"

subsection \<open>Flag bits and size constants\<close>

text \<open>
  The block-group flag bits come from \<^verbatim>\<open>include/uapi/linux/btrfs_tree.h\<close> and the size
  constants from \<^verbatim>\<open>include/linux/sizes.h\<close>; the values are the kernel's.
\<close>

definition BTRFS_BLOCK_GROUP_DATA :: u64 where "BTRFS_BLOCK_GROUP_DATA = 2 ^ 0"
definition BTRFS_BLOCK_GROUP_SYSTEM :: u64 where "BTRFS_BLOCK_GROUP_SYSTEM = 2 ^ 1"
definition BTRFS_BLOCK_GROUP_METADATA :: u64 where "BTRFS_BLOCK_GROUP_METADATA = 2 ^ 2"
definition BTRFS_BLOCK_GROUP_RAID0 :: u64 where "BTRFS_BLOCK_GROUP_RAID0 = 2 ^ 3"
definition BTRFS_BLOCK_GROUP_RAID1 :: u64 where "BTRFS_BLOCK_GROUP_RAID1 = 2 ^ 4"
definition BTRFS_BLOCK_GROUP_DUP :: u64 where "BTRFS_BLOCK_GROUP_DUP = 2 ^ 5"
definition BTRFS_BLOCK_GROUP_RAID10 :: u64 where "BTRFS_BLOCK_GROUP_RAID10 = 2 ^ 6"
definition BTRFS_BLOCK_GROUP_RAID5 :: u64 where "BTRFS_BLOCK_GROUP_RAID5 = 2 ^ 7"
definition BTRFS_BLOCK_GROUP_RAID6 :: u64 where "BTRFS_BLOCK_GROUP_RAID6 = 2 ^ 8"
definition BTRFS_BLOCK_GROUP_RAID1C3 :: u64 where "BTRFS_BLOCK_GROUP_RAID1C3 = 2 ^ 9"
definition BTRFS_BLOCK_GROUP_RAID1C4 :: u64 where "BTRFS_BLOCK_GROUP_RAID1C4 = 2 ^ 10"
definition BTRFS_AVAIL_ALLOC_BIT_SINGLE :: u64 where "BTRFS_AVAIL_ALLOC_BIT_SINGLE = 2 ^ 48"
definition BTRFS_BALANCE_ARGS_CONVERT :: u64 where "BTRFS_BALANCE_ARGS_CONVERT = 2 ^ 8"

definition BTRFS_BLOCK_GROUP_PROFILE_MASK :: u64 where
  "BTRFS_BLOCK_GROUP_PROFILE_MASK =
     BTRFS_BLOCK_GROUP_RAID0 OR BTRFS_BLOCK_GROUP_RAID1 OR BTRFS_BLOCK_GROUP_RAID1C3 OR
     BTRFS_BLOCK_GROUP_RAID1C4 OR BTRFS_BLOCK_GROUP_RAID5 OR BTRFS_BLOCK_GROUP_RAID6 OR
     BTRFS_BLOCK_GROUP_DUP OR BTRFS_BLOCK_GROUP_RAID10"

definition SZ_128K :: u64 where "SZ_128K = 131072"
definition SZ_8M :: u64 where "SZ_8M = 8388608"

subsection \<open>Helpers of the headers\<close>

text \<open>
  Modelled from the spec: \<^verbatim>\<open>btrfs_space_info_used\<close> is an inline helper of space-info.h,
  a file outside block-group.c.  The class-wide used amount is the sum of the
  accounted counters of the class; the soft-reserved \<open>bytes_may_use\<close> is counted when
  the caller asks for it.
\<close>

definition btrfs_space_info_used :: "btrfs_space_info \<Rightarrow> bool \<Rightarrow> u64" where
  "btrfs_space_info_used s_info may_use_included =
     bytes_used s_info + bytes_reserved s_info + bytes_pinned s_info +
     bytes_readonly s_info + bytes_zone_unusable s_info +
     (if may_use_included then bytes_may_use s_info else 0)"

text \<open>
  Modelled from the spec: \<^verbatim>\<open>btrfs_space_info_update_bytes_may_use\<close> and
  \<^verbatim>\<open>btrfs_space_info_update_bytes_pinned\<close> (space-info.h, a file outside
  block-group.c) add a signed amount to the counter they are named after; attaching a reservation
  decrements \<open>bytes_may_use\<close> by the amount soft-reserved for it.  The signed amount is
  passed as the 64-bit word with the same bits.
\<close>

definition btrfs_space_info_update_bytes_may_use ::
  "btrfs_space_info \<Rightarrow> u64 \<Rightarrow> btrfs_space_info" where
  "btrfs_space_info_update_bytes_may_use sinfo bytes =
     sinfo\<lparr>bytes_may_use := bytes_may_use sinfo + bytes\<rparr>"

definition btrfs_space_info_update_bytes_pinned ::
  "btrfs_space_info \<Rightarrow> u64 \<Rightarrow> btrfs_space_info" where
  "btrfs_space_info_update_bytes_pinned sinfo bytes =
     sinfo\<lparr>bytes_pinned := bytes_pinned sinfo + bytes\<rparr>"

text \<open>
  Modelled from the spec: \<^verbatim>\<open>btrfs_try_granting_tickets\<close> (space-info.c) lies outside
  block-group.c.  A space info has a first-in first-out queue of tickets, requests for
  soft-reserved bytes that wait until enough space exists, and they are granted in the
  order of their arrival as space frees: while the ticket at the head of the queue can be
  satisfied, its bytes are added to \<open>bytes_may_use\<close> and it leaves the queue.  A ticket
  can be satisfied when the class-wide used bytes, soft reservations included, plus its
  bytes stay within \<open>total_bytes\<close>, or when the overcommit policy of the class admits
  it.
\<close>

fun grant_tickets :: "fs_env \<Rightarrow> u64 list \<Rightarrow> btrfs_space_info \<Rightarrow> btrfs_space_info" where
  "grant_tickets env [] space_info = space_info\<lparr>tickets := []\<rparr>"
| "grant_tickets env (ticket # waiting) space_info =
     (if btrfs_space_info_used space_info True + ticket \<le> total_bytes space_info \<or>
         can_overcommit env space_info ticket
      then grant_tickets env waiting (btrfs_space_info_update_bytes_may_use space_info ticket)
      else space_info\<lparr>tickets := ticket # waiting\<rparr>)"

definition btrfs_try_granting_tickets :: "fs_env \<Rightarrow> btrfs_space_info \<Rightarrow> btrfs_space_info" where
  "btrfs_try_granting_tickets env space_info = grant_tickets env (tickets space_info) space_info"

text \<open>
  Modelled from the spec: \<^verbatim>\<open>btrfs_is_block_group_data_only\<close> is an inline helper of
  block-group.h, a file outside block-group.c.  Size classes steer data
  allocations; the helper holds for a group whose profile carries the data class and not
  the metadata class.
\<close>

definition btrfs_is_block_group_data_only :: "btrfs_block_group \<Rightarrow> bool" where
  "btrfs_is_block_group_data_only bg \<longleftrightarrow>
     flags bg AND BTRFS_BLOCK_GROUP_DATA \<noteq> 0 \<and> flags bg AND BTRFS_BLOCK_GROUP_METADATA = 0"

text \<open>
  Modelled from the spec: \<^verbatim>\<open>mult_perc\<close> is a helper of misc.h, a file outside
  block-group.c.  The reclaim threshold is a percentage of the length of the group:
  \<open>num * percent / 100\<close> in 64-bit arithmetic.
\<close>

definition mult_perc :: "u64 \<Rightarrow> u32 \<Rightarrow> u64" where
  "mult_perc num percent = (num * ucast percent) div 100"

subsection \<open>Size classes\<close>

definition btrfs_calc_block_group_size_class :: "u64 \<Rightarrow> btrfs_block_group_size_class" where
  "btrfs_calc_block_group_size_class sz =
     (if sz \<le> SZ_128K then BTRFS_BG_SZ_SMALL
      else if sz \<le> SZ_8M then BTRFS_BG_SZ_MEDIUM
      else BTRFS_BG_SZ_LARGE)"

definition btrfs_use_block_group_size_class ::
  "btrfs_block_group \<Rightarrow> btrfs_block_group_size_class \<Rightarrow> bool \<Rightarrow> btrfs_block_group result" where
  "btrfs_use_block_group_size_class bg sc force_wrong_size_class =
     (if sc = BTRFS_BG_SZ_NONE then Bug
      else if size_class bg = sc then Ok bg
      else if size_class bg \<noteq> BTRFS_BG_SZ_NONE then
        (if force_wrong_size_class then Ok bg else Err EAGAIN bg)
      else Ok (bg\<lparr>size_class := sc\<rparr>))"

definition btrfs_block_group_should_use_size_class :: "fs_env \<Rightarrow> btrfs_block_group \<Rightarrow> bool" where
  "btrfs_block_group_should_use_size_class env bg =
     (if is_zoned env then False
      else if \<not> btrfs_is_block_group_data_only bg then False
      else True)"

subsection \<open>Attaching and releasing reservations\<close>

text \<open>
  \<^verbatim>\<open>btrfs_add_reserved_bytes\<close>: the read-only test comes first, then the size-class
  test, then the counters move.  On either refusal the function jumps to \<^verbatim>\<open>out\<close>
  before any counter is written.  A reservation smaller than the bytes soft-reserved for
  it (the compression path) ends with an attempt to grant waiting tickets;
  \<^verbatim>\<open>btrfs_free_reserved_bytes\<close> always does.
\<close>

definition btrfs_add_reserved_bytes ::
  "fs_env \<Rightarrow> u64 \<Rightarrow> u64 \<Rightarrow> bool \<Rightarrow> bool \<Rightarrow> bg_state \<Rightarrow> bg_state result" where
  "btrfs_add_reserved_bytes env ram_bytes num_bytes delalloc force_wrong_size_class st =
     (let (cache, space_info) = st in
      if ro cache \<noteq> 0 then Err EAGAIN (cache, space_info)
      else
        (case (if btrfs_block_group_should_use_size_class env cache
               then btrfs_use_block_group_size_class cache
                      (btrfs_calc_block_group_size_class num_bytes) force_wrong_size_class
               else Ok cache) of
           Bug \<Rightarrow> Bug
         | Err e c \<Rightarrow> Err e (c, space_info)
         | Ok c \<Rightarrow>
             (let c1 = c\<lparr>reserved := reserved c + num_bytes\<rparr>;
                  s1 = space_info\<lparr>bytes_reserved := bytes_reserved space_info + num_bytes\<rparr>;
                  s2 = btrfs_space_info_update_bytes_may_use s1 (- ram_bytes);
                  c2 = (if delalloc then c1\<lparr>delalloc_bytes := delalloc_bytes c1 + num_bytes\<rparr>
                        else c1);
                  s3 = (if num_bytes < ram_bytes then btrfs_try_granting_tickets env s2 else s2)
              in Ok (c2, s3))))"

definition btrfs_free_reserved_bytes :: "fs_env \<Rightarrow> u64 \<Rightarrow> bool \<Rightarrow> bg_state \<Rightarrow> bg_state" where
  "btrfs_free_reserved_bytes env num_bytes delalloc st =
     (let (cache, space_info) = st;
          s0 = (if ro cache \<noteq> 0
                then space_info\<lparr>bytes_readonly := bytes_readonly space_info + num_bytes\<rparr>
                else space_info);
          c1 = cache\<lparr>reserved := reserved cache - num_bytes\<rparr>;
          s1 = s0\<lparr>bytes_reserved := bytes_reserved s0 - num_bytes, max_extent_size := 0\<rparr>;
          c2 = (if delalloc then c1\<lparr>delalloc_bytes := delalloc_bytes c1 - num_bytes\<rparr> else c1)
      in (c2, btrfs_try_granting_tickets env s1))"

subsection \<open>Read-only and swap-extents counters\<close>

text \<open>
  \<^verbatim>\<open>inc_block_group_ro\<close>: a group with active swap extents is refused with
  \<^verbatim>\<open>-ETXTBSY\<close> before \<open>force\<close> is looked at; a group that is read-only already only
  has its counter raised; otherwise the free bytes of the group are computed and the
  admission test decides between 0 and \<^verbatim>\<open>-ENOSPC\<close>.
\<close>

definition inc_block_group_ro :: "fs_env \<Rightarrow> bool \<Rightarrow> bg_state \<Rightarrow> bg_state result" where
  "inc_block_group_ro env force st =
     (let (cache, sinfo) = st in
      if swap_extents cache \<noteq> 0 then Err ETXTBSY (cache, sinfo)
      else if ro cache \<noteq> 0 then Ok (cache\<lparr>ro := ro cache + 1\<rparr>, sinfo)
      else
        (let num_bytes = length_bg cache - reserved cache - pinned cache -
                         bytes_super cache - zone_unusable cache - used cache;
             admitted =
               (if force then True
                else if btrfs_space_info.flags sinfo AND BTRFS_BLOCK_GROUP_DATA \<noteq> 0
                then btrfs_space_info_used sinfo True + num_bytes \<le> total_bytes sinfo
                else can_overcommit env sinfo num_bytes)
         in if admitted then
              (let s1 = sinfo\<lparr>bytes_readonly := bytes_readonly sinfo + num_bytes\<rparr>;
                   s2 = (if is_zoned env
                         then s1\<lparr>bytes_readonly := bytes_readonly s1 + zone_unusable cache,
                                 bytes_zone_unusable :=
                                   bytes_zone_unusable s1 - zone_unusable cache\<rparr>
                         else s1);
                   c1 = (if is_zoned env then cache\<lparr>zone_unusable := 0\<rparr> else cache)
               in Ok (c1\<lparr>ro := ro c1 + 1, on_ro_list := True\<rparr>, s2))
            else Err ENOSPC (cache, sinfo)))"

definition btrfs_dec_block_group_ro :: "fs_env \<Rightarrow> bg_state \<Rightarrow> bg_state result" where
  "btrfs_dec_block_group_ro env st =
     (let (cache, sinfo) = st in
      if ro cache = 0 then Bug
      else
        (let c0 = cache\<lparr>ro := ro cache - 1\<rparr> in
         if ro c0 = 0 then
           (let c1 = (if is_zoned env
                      then c0\<lparr>zone_unusable := (alloc_offset c0 - used c0) +
                                                (length_bg c0 - zone_capacity c0)\<rparr>
                      else c0);
                s1 = (if is_zoned env
                      then sinfo\<lparr>bytes_zone_unusable :=
                                   bytes_zone_unusable sinfo + zone_unusable c1,
                                 bytes_readonly := bytes_readonly sinfo - zone_unusable c1\<rparr>
                      else sinfo);
                num_bytes = length_bg c1 - reserved c1 - pinned c1 -
                            bytes_super c1 - zone_unusable c1 - used c1
            in Ok (c1\<lparr>on_ro_list := False\<rparr>,
                   s1\<lparr>bytes_readonly := bytes_readonly s1 - num_bytes\<rparr>))
         else Ok (c0, sinfo)))"

definition btrfs_inc_block_group_swap_extents ::
  "btrfs_block_group \<Rightarrow> bool \<times> btrfs_block_group" where
  "btrfs_inc_block_group_swap_extents bg =
     (if ro bg \<noteq> 0 then (False, bg)
      else (True, bg\<lparr>swap_extents := swap_extents bg + 1\<rparr>))"

definition btrfs_dec_block_group_swap_extents ::
  "btrfs_block_group \<Rightarrow> int \<Rightarrow> btrfs_block_group result" where
  "btrfs_dec_block_group_swap_extents bg amount =
     (if ro bg \<noteq> 0 then Bug
      else if \<not> swap_extents bg \<ge> amount then Bug
      else Ok (bg\<lparr>swap_extents := swap_extents bg - amount\<rparr>))"

subsection \<open>The registry of block groups\<close>

text \<open>
  \<^verbatim>\<open>block_group_cache_tree\<close> is a red-black tree keyed by \<open>start\<close>.  The descent of
  \<^verbatim>\<open>btrfs_add_block_group_cache\<close> and of \<^verbatim>\<open>block_group_cache_tree_search\<close> only
  follows the left and right links, so the tree is modelled without colours.  The
  recolouring and rotations of \<^verbatim>\<open>rb_insert_color_cached\<close> (lib/rbtree.c) keep the
  in-order sequence of the nodes; the results below are stated for every search-ordered
  tree and therefore hold for whatever shape rebalancing leaves.
\<close>

datatype bg_tree = Leaf | Node bg_tree btrfs_block_group bg_tree

fun set_bg_tree :: "bg_tree \<Rightarrow> btrfs_block_group set" where
  "set_bg_tree Leaf = {}"
| "set_bg_tree (Node l g r) = insert g (set_bg_tree l \<union> set_bg_tree r)"

fun inorder :: "bg_tree \<Rightarrow> btrfs_block_group list" where
  "inorder Leaf = []"
| "inorder (Node l g r) = inorder l @ g # inorder r"

definition btrfs_create_block_group_cache :: "u64 \<Rightarrow> btrfs_block_group" where
  "btrfs_create_block_group_cache st =
     \<lparr>start = st, length_bg = 0, flags = 0, used = 0, reserved = 0, pinned = 0,
      bytes_super = 0, zone_unusable = 0, delalloc_bytes = 0, alloc_offset = 0,
      zone_capacity = 0, ro = 0, swap_extents = 0, size_class = BTRFS_BG_SZ_NONE,
      refs = 1, on_ro_list = False, on_dirty_list = False, bg_list = Not_Listed,
      flag_new = False, space_info_id = 0\<rparr>"

definition btrfs_get_block_group :: "btrfs_block_group \<Rightarrow> btrfs_block_group" where
  "btrfs_get_block_group cache = cache\<lparr>refs := refs cache + 1\<rparr>"

text \<open>Dropping the last reference frees the group; that is not modelled.\<close>

definition btrfs_put_block_group :: "btrfs_block_group \<Rightarrow> btrfs_block_group" where
  "btrfs_put_block_group cache = cache\<lparr>refs := refs cache - 1\<rparr>"

text \<open>The descent and link step of the insert; \<open>None\<close> is the \<^verbatim>\<open>-EEXIST\<close> exit.\<close>

fun rb_link_block_group :: "btrfs_block_group \<Rightarrow> bg_tree \<Rightarrow> bg_tree option" where
  "rb_link_block_group block_group Leaf = Some (Node Leaf block_group Leaf)"
| "rb_link_block_group block_group (Node l cache r) =
     (if start block_group < start cache then
        map_option (\<lambda>l'. Node l' cache r) (rb_link_block_group block_group l)
      else if start block_group > start cache then
        map_option (\<lambda>r'. Node l cache r') (rb_link_block_group block_group r)
      else None)"

definition btrfs_add_block_group_cache ::
  "bg_tree \<Rightarrow> btrfs_block_group \<Rightarrow> bg_tree result" where
  "btrfs_add_block_group_cache info block_group =
     (if length_bg block_group = 0 then Bug
      else case rb_link_block_group block_group info of
             None \<Rightarrow> Err EEXIST info
           | Some info' \<Rightarrow> Ok info')"

text \<open>
  The loop of \<^verbatim>\<open>block_group_cache_tree_search\<close>, with \<open>ret\<close> threaded through.  The
  last byte of a group is computed as in the source, \<open>start + length - 1\<close> in 64-bit
  arithmetic.
\<close>

fun block_group_cache_tree_walk ::
  "bg_tree \<Rightarrow> u64 \<Rightarrow> bool \<Rightarrow> btrfs_block_group option \<Rightarrow> btrfs_block_group option" where
  "block_group_cache_tree_walk Leaf bytenr contains ret = ret"
| "block_group_cache_tree_walk (Node l cache r) bytenr contains ret =
     (let e = start cache + length_bg cache - 1;
          st = start cache
      in if bytenr < st then
           block_group_cache_tree_walk l bytenr contains
             (if \<not> contains \<and> (case ret of None \<Rightarrow> True | Some r0 \<Rightarrow> st < start r0)
              then Some cache else ret)
         else if bytenr > st then
           (if contains \<and> bytenr \<le> e then Some cache
            else block_group_cache_tree_walk r bytenr contains ret)
         else Some cache)"

text \<open>
  Taking the reference on the node found: the node is identified by its key, and its
  reference count is raised in place.
\<close>

fun get_node :: "u64 \<Rightarrow> bg_tree \<Rightarrow> bg_tree" where
  "get_node k Leaf = Leaf"
| "get_node k (Node l cache r) =
     Node (get_node k l)
          (if start cache = k then btrfs_get_block_group cache else cache)
          (get_node k r)"

definition block_group_cache_tree_search ::
  "bg_tree \<Rightarrow> u64 \<Rightarrow> bool \<Rightarrow> bg_tree \<times> btrfs_block_group option" where
  "block_group_cache_tree_search info bytenr contains =
     (case block_group_cache_tree_walk info bytenr contains None of
        None \<Rightarrow> (info, None)
      | Some ret \<Rightarrow> (get_node (start ret) info, Some (btrfs_get_block_group ret)))"

definition btrfs_lookup_first_block_group ::
  "bg_tree \<Rightarrow> u64 \<Rightarrow> bg_tree \<times> btrfs_block_group option" where
  "btrfs_lookup_first_block_group info bytenr = block_group_cache_tree_search info bytenr False"

definition btrfs_lookup_block_group ::
  "bg_tree \<Rightarrow> u64 \<Rightarrow> bg_tree \<times> btrfs_block_group option" where
  "btrfs_lookup_block_group info bytenr = block_group_cache_tree_search info bytenr True"

subsection \<open>Committing and freeing extents\<close>

definition btrfs_mark_bg_unused :: "btrfs_block_group \<Rightarrow> btrfs_block_group" where
  "btrfs_mark_bg_unused bg =
     (if bg_list bg = Not_Listed then
        (btrfs_get_block_group bg)\<lparr>bg_list := On_Unused_Bgs\<rparr>
      else if \<not> flag_new bg then bg\<lparr>bg_list := On_Unused_Bgs\<rparr>
      else bg)"

definition btrfs_mark_bg_to_reclaim :: "btrfs_block_group \<Rightarrow> btrfs_block_group" where
  "btrfs_mark_bg_to_reclaim bg =
     (if bg_list bg = Not_Listed then
        (btrfs_get_block_group bg)\<lparr>bg_list := On_Reclaim_Bgs\<rparr>
      else bg)"

definition should_reclaim_block_group ::
  "btrfs_block_group \<Rightarrow> btrfs_space_info \<Rightarrow> u64 \<Rightarrow> bool" where
  "should_reclaim_block_group bg space_info bytes_freed =
     (let reclaim_thresh = bg_reclaim_threshold space_info;
          new_val = used bg;
          old_val = new_val + bytes_freed
      in if reclaim_thresh = 0 then False
         else (let thresh = mult_perc (length_bg bg) reclaim_thresh
               in if old_val < thresh then False
                  else if new_val \<ge> thresh then False
                  else True))"

text \<open>
  \<^verbatim>\<open>btrfs_update_block_group\<close> on the part of the filesystem it touches for one group:
  the superblock's \<open>bytes_used\<close>, the group and the group's space info.  The registry
  the lookup runs on holds this one group.  The lookup takes a reference, which is dropped
  before the function returns; a group that is not yet on the transaction's list of dirty
  groups is put on it, with a reference for the list.  Starting the caching of the group,
  the space-cache state, the pinned-extents tree of the transaction and the delayed-refs
  reservation belong to other files and are left out.
\<close>

definition btrfs_update_block_group ::
  "fs_env \<Rightarrow> u64 \<Rightarrow> u64 \<Rightarrow> bool \<Rightarrow> u64 \<times> bg_state \<Rightarrow> (u64 \<times> bg_state) result" where
  "btrfs_update_block_group env bytenr num_bytes alloc st =
     (let (super_bytes_used, cache0, space_info) = st;
          super1 = (if alloc then super_bytes_used + num_bytes
                    else super_bytes_used - num_bytes)
      in case snd (btrfs_lookup_block_group (Node Leaf cache0 Leaf) bytenr) of
           None \<Rightarrow> Err ENOENT (super1, cache0, space_info)
         | Some cache \<Rightarrow>
             if \<not> bytenr + num_bytes \<le> start cache + length_bg cache then Bug
             else
               (let factor = bg_type_to_factor env (flags cache);
                    dirty = (\<lambda>c. if \<not> on_dirty_list c
                                 then btrfs_get_block_group (c\<lparr>on_dirty_list := True\<rparr>) else c)
                in
                if alloc then
                  Ok (super1,
                      btrfs_put_block_group
                        (dirty (cache\<lparr>used := used cache + num_bytes,
                                     reserved := reserved cache - num_bytes\<rparr>)),
                      space_info\<lparr>bytes_reserved := bytes_reserved space_info - num_bytes,
                                 bytes_used := bytes_used space_info + num_bytes,
                                 disk_used := disk_used space_info + num_bytes * factor\<rparr>)
                else
                  (let c1 = cache\<lparr>used := used cache - num_bytes,
                                   pinned := pinned cache + num_bytes\<rparr>;
                       s1 = btrfs_space_info_update_bytes_pinned space_info num_bytes;
                       s2 = s1\<lparr>bytes_used := bytes_used s1 - num_bytes,
                                disk_used := disk_used s1 - num_bytes * factor\<rparr>;
                       reclaim = should_reclaim_block_group c1 s2 num_bytes;
                       c2 = dirty c1;
                       c3 = (if used c2 = 0 then
                               (if \<not> discard_async env then btrfs_mark_bg_unused c2 else c2)
                             else if reclaim then btrfs_mark_bg_to_reclaim c2
                             else c2)
                   in Ok (super1, btrfs_put_block_group c3, s2))))"

subsection \<open>Reducing an allocation profile\<close>

text \<open>
  \<^verbatim>\<open>get_restripe_target\<close> and \<^verbatim>\<open>btrfs_reduce_alloc_profile\<close>.  The balance control is
  \<open>None\<close> when \<^verbatim>\<open>fs_info->balance_ctl\<close> is a null pointer.  The table
  \<^verbatim>\<open>btrfs_raid_array\<close> of volumes.c and the number of writable devices are arguments;
  the loop over the RAID types is the fold over the table.  \<^verbatim>\<open>extended_to_chunk\<close>
  (a header helper) clears the bit that stands for the single profile in the extended
  format.
\<close>

definition extended_to_chunk :: "u64 \<Rightarrow> u64" where
  "extended_to_chunk fl = fl AND NOT BTRFS_AVAIL_ALLOC_BIT_SINGLE"

definition get_restripe_target :: "btrfs_balance_control option \<Rightarrow> u64 \<Rightarrow> u64" where
  "get_restripe_target balance_ctl fl =
     (case balance_ctl of
        None \<Rightarrow> 0
      | Some bctl \<Rightarrow>
          if fl AND BTRFS_BLOCK_GROUP_DATA \<noteq> 0 \<and>
             btrfs_balance_args.flags (data bctl) AND BTRFS_BALANCE_ARGS_CONVERT \<noteq> 0
          then BTRFS_BLOCK_GROUP_DATA OR target (data bctl)
          else if fl AND BTRFS_BLOCK_GROUP_SYSTEM \<noteq> 0 \<and>
                  btrfs_balance_args.flags (sys bctl) AND BTRFS_BALANCE_ARGS_CONVERT \<noteq> 0
          then BTRFS_BLOCK_GROUP_SYSTEM OR target (sys bctl)
          else if fl AND BTRFS_BLOCK_GROUP_METADATA \<noteq> 0 \<and>
                  btrfs_balance_args.flags (meta bctl) AND BTRFS_BALANCE_ARGS_CONVERT \<noteq> 0
          then BTRFS_BLOCK_GROUP_METADATA OR target (meta bctl)
          else 0)"

definition raid_levels_possible :: "btrfs_raid_attr list \<Rightarrow> u64 \<Rightarrow> u64" where
  "raid_levels_possible btrfs_raid_array num_devices =
     fold (\<lambda>attr allowed. if num_devices \<ge> devs_min attr then allowed OR bg_flag attr else allowed)
          btrfs_raid_array 0"

definition btrfs_reduce_alloc_profile ::
  "btrfs_raid_attr list \<Rightarrow> u64 \<Rightarrow> btrfs_balance_control option \<Rightarrow> u64 \<Rightarrow> u64" where
  "btrfs_reduce_alloc_profile btrfs_raid_array num_devices balance_ctl fl =
     (let tgt = get_restripe_target balance_ctl fl in
      if tgt \<noteq> 0 then extended_to_chunk tgt
      else
        (let allowed0 = raid_levels_possible btrfs_raid_array num_devices AND fl;
             allowed =
               (if allowed0 AND BTRFS_BLOCK_GROUP_RAID1C4 \<noteq> 0 then BTRFS_BLOCK_GROUP_RAID1C4
                else if allowed0 AND BTRFS_BLOCK_GROUP_RAID6 \<noteq> 0 then BTRFS_BLOCK_GROUP_RAID6
                else if allowed0 AND BTRFS_BLOCK_GROUP_RAID1C3 \<noteq> 0 then BTRFS_BLOCK_GROUP_RAID1C3
                else if allowed0 AND BTRFS_BLOCK_GROUP_RAID5 \<noteq> 0 then BTRFS_BLOCK_GROUP_RAID5
                else if allowed0 AND BTRFS_BLOCK_GROUP_RAID10 \<noteq> 0 then BTRFS_BLOCK_GROUP_RAID10
                else if allowed0 AND BTRFS_BLOCK_GROUP_RAID1 \<noteq> 0 then BTRFS_BLOCK_GROUP_RAID1
                else if allowed0 AND BTRFS_BLOCK_GROUP_DUP \<noteq> 0 then BTRFS_BLOCK_GROUP_DUP
                else if allowed0 AND BTRFS_BLOCK_GROUP_RAID0 \<noteq> 0 then BTRFS_BLOCK_GROUP_RAID0
                else allowed0)
         in extended_to_chunk ((fl AND NOT BTRFS_BLOCK_GROUP_PROFILE_MASK) OR allowed)))"

text \<open>
  The reducer as the specification words it: the conversion target of the first content
  class of the flags that a running balance converts, and otherwise the first scheme of
  the priority order that the flags allow and the device count makes feasible.
\<close>

definition profile_priority_order :: "u64 list" where
  "profile_priority_order =
     [BTRFS_BLOCK_GROUP_RAID1C4, BTRFS_BLOCK_GROUP_RAID6, BTRFS_BLOCK_GROUP_RAID1C3,
      BTRFS_BLOCK_GROUP_RAID5, BTRFS_BLOCK_GROUP_RAID10, BTRFS_BLOCK_GROUP_RAID1,
      BTRFS_BLOCK_GROUP_DUP, BTRFS_BLOCK_GROUP_RAID0]"

definition scheme_feasible :: "btrfs_raid_attr list \<Rightarrow> u64 \<Rightarrow> u64 \<Rightarrow> bool" where
  "scheme_feasible btrfs_raid_array num_devices scheme \<longleftrightarrow>
     list_ex (\<lambda>attr. bg_flag attr AND scheme \<noteq> 0 \<and> devs_min attr \<le> num_devices) btrfs_raid_array"

definition spec_conversion_target :: "btrfs_balance_control option \<Rightarrow> u64 \<Rightarrow> u64 option" where
  "spec_conversion_target balance_ctl fl =
     (case balance_ctl of
        None \<Rightarrow> None
      | Some bctl \<Rightarrow>
          map_option (\<lambda>(cls, args). cls OR target args)
            (find (\<lambda>(cls, args). fl AND cls \<noteq> 0 \<and>
                      btrfs_balance_args.flags args AND BTRFS_BALANCE_ARGS_CONVERT \<noteq> 0)
               [(BTRFS_BLOCK_GROUP_DATA, data bctl), (BTRFS_BLOCK_GROUP_SYSTEM, sys bctl),
                (BTRFS_BLOCK_GROUP_METADATA, meta bctl)]))"

definition spec_profile_reducer ::
  "btrfs_raid_attr list \<Rightarrow> u64 \<Rightarrow> btrfs_balance_control option \<Rightarrow> u64 \<Rightarrow> u64" where
  "spec_profile_reducer btrfs_raid_array num_devices balance_ctl fl =
     (case spec_conversion_target balance_ctl fl of
        Some tgt \<Rightarrow> extended_to_chunk tgt
      | None \<Rightarrow>
          extended_to_chunk
            ((fl AND NOT BTRFS_BLOCK_GROUP_PROFILE_MASK) OR
             (case find (\<lambda>scheme. fl AND scheme \<noteq> 0 \<and>
                                  scheme_feasible btrfs_raid_array num_devices scheme)
                        profile_priority_order of
                None \<Rightarrow> 0
              | Some scheme \<Rightarrow> scheme)))"

text \<open>Every group flag of the table is a profile bit (or none, for the single profile).\<close>

definition raid_array_well_formed :: "btrfs_raid_attr list \<Rightarrow> bool" where
  "raid_array_well_formed btrfs_raid_array \<longleftrightarrow>
     list_all (\<lambda>attr. bg_flag attr AND NOT BTRFS_BLOCK_GROUP_PROFILE_MASK = 0) btrfs_raid_array"

text \<open>The table of volumes.c, in the order of \<^verbatim>\<open>enum btrfs_raid_types\<close>.\<close>

definition kernel_raid_array :: "btrfs_raid_attr list" where
  "kernel_raid_array =
     [\<lparr>devs_min = 1, bg_flag = 0\<rparr>,
      \<lparr>devs_min = 1, bg_flag = BTRFS_BLOCK_GROUP_RAID0\<rparr>,
      \<lparr>devs_min = 2, bg_flag = BTRFS_BLOCK_GROUP_RAID1\<rparr>,
      \<lparr>devs_min = 1, bg_flag = BTRFS_BLOCK_GROUP_DUP\<rparr>,
      \<lparr>devs_min = 2, bg_flag = BTRFS_BLOCK_GROUP_RAID10\<rparr>,
      \<lparr>devs_min = 2, bg_flag = BTRFS_BLOCK_GROUP_RAID5\<rparr>,
      \<lparr>devs_min = 3, bg_flag = BTRFS_BLOCK_GROUP_RAID6\<rparr>,
      \<lparr>devs_min = 3, bg_flag = BTRFS_BLOCK_GROUP_RAID1C3\<rparr>,
      \<lparr>devs_min = 4, bg_flag = BTRFS_BLOCK_GROUP_RAID1C4\<rparr>]"

subsection \<open>The caching scan\<close>

definition BTRFS_EXTENT_ITEM_KEY :: "8 word" where "BTRFS_EXTENT_ITEM_KEY = 168"
definition BTRFS_METADATA_ITEM_KEY :: "8 word" where "BTRFS_METADATA_ITEM_KEY = 169"

text \<open>
  The scan reads the extent tree through the tree-search primitives of ctree.c and fills
  the free-space index through free-space-cache.c; neither belongs to block-group.c.  The
  extent tree is the sorted list of its keys, the leaves flattened: the walk below steps
  through that list as the loop of \<^verbatim>\<open>load_extent_tree_free\<close> steps through slots and
  leaves.  Rescheduling points, the progress ticks of the caching control and the failure
  of a memory allocation or of a tree read are left out.  The node size,
  \<^verbatim>\<open>BTRFS_SUPER_INFO_OFFSET\<close> (a constant of a header outside block-group.c; 64 KiB in
  the kernel), the excluded extents and whether the filesystem is closing are read from
  the environment.
\<close>

record caching_env =
  nodesize :: u64
  BTRFS_SUPER_INFO_OFFSET :: u64
  excluded_extents :: "(u64 \<times> u64) list"
  fs_closing :: bool

type_synonym free_space_index = "(u64 \<times> u64) list"

text \<open>
  Modelled from the spec: \<^verbatim>\<open>find_first_extent_bit\<close> (extent-io-tree.c) lies outside
  block-group.c.  The excluded ranges, the fixed superblock-copy locations, are a list of
  inclusive ranges in address order; the lookup returns the first of them that ends at or
  after the given address.
\<close>

definition find_first_extent_bit :: "(u64 \<times> u64) list \<Rightarrow> u64 \<Rightarrow> (u64 \<times> u64) option" where
  "find_first_extent_bit tree st = find (\<lambda>(extent_start, extent_end). st \<le> extent_end) tree"

text \<open>
  Modelled from the spec: \<^verbatim>\<open>btrfs_add_free_space_async_trimmed\<close> (free-space-cache.c)
  lies outside block-group.c.  It is the \<open>add_free_space\<close> of the extent source: the
  index is the list of the records inserted, in the order of their insertion.
\<close>

definition btrfs_add_free_space_async_trimmed ::
  "free_space_index \<Rightarrow> u64 \<Rightarrow> u64 \<Rightarrow> free_space_index" where
  "btrfs_add_free_space_async_trimmed ctl bytenr sz = ctl @ [(bytenr, sz)]"

text \<open>
  \<^verbatim>\<open>btrfs_add_new_free_space\<close>, with the index and \<open>total_added\<close> passed along.  An
  excluded range that ends at the last address makes \<open>start\<close> wrap to 0, so the loop need
  not end: the function is partial and \<open>None\<close> stands for a call that does not return.
\<close>

partial_function (option) btrfs_add_new_free_space ::
  "caching_env \<Rightarrow> u64 \<Rightarrow> u64 \<Rightarrow> free_space_index \<times> u64 \<Rightarrow> (free_space_index \<times> u64) option" where
  "btrfs_add_new_free_space env st e acc =
     (let (ctl, total_added) = acc;
          tail = (if st < e
                  then Some (btrfs_add_free_space_async_trimmed ctl st (e - st),
                             total_added + (e - st))
                  else Some (ctl, total_added))
      in if st < e then
           (case find_first_extent_bit (excluded_extents env) st of
              None \<Rightarrow> tail
            | Some (extent_start, extent_end) \<Rightarrow>
                if extent_start \<le> st then
                  btrfs_add_new_free_space env (extent_end + 1) e acc
                else if extent_start > st \<and> extent_start < e then
                  btrfs_add_new_free_space env (extent_end + 1) e
                    (btrfs_add_free_space_async_trimmed ctl st (extent_start - st),
                     total_added + (extent_start - st))
                else tail)
         else tail)"

declare btrfs_add_new_free_space.simps [code]

text \<open>
  Modelled from the spec: \<^verbatim>\<open>btrfs_search_slot\<close> (ctree.c) lies outside block-group.c.
  Keys are ordered by \<open>objectid\<close>, then \<open>type\<close>, then \<open>offset\<close>; the search
  leaves the path at the first item whose key is not below the key searched for.
\<close>

definition key_before :: "btrfs_key \<Rightarrow> btrfs_key \<Rightarrow> bool" where
  "key_before k1 k2 \<longleftrightarrow>
     objectid k1 < objectid k2 \<or>
     (objectid k1 = objectid k2 \<and>
        (type k1 < type k2 \<or> (type k1 = type k2 \<and> offset k1 < offset k2)))"

definition btrfs_search_slot :: "btrfs_key \<Rightarrow> btrfs_key list \<Rightarrow> btrfs_key list" where
  "btrfs_search_slot key items = dropWhile (\<lambda>k. key_before k key) items"

text \<open>
  The \<^verbatim>\<open>while (1)\<close> loop of \<^verbatim>\<open>load_extent_tree_free\<close> over the items from the current
  slot on.  It returns \<open>last\<close> and the index as the loop leaves them.  A key below
  \<open>last\<close> makes the source search again from \<open>last\<close>; the items between the current
  one and the end of the tree are the ones that search can land on.
\<close>

function extent_tree_walk ::
  "caching_env \<Rightarrow> btrfs_block_group \<Rightarrow> u64 \<Rightarrow> free_space_index \<Rightarrow> btrfs_key list \<Rightarrow>
     (u64 \<times> free_space_index) option" where
  "extent_tree_walk env block_group last_pos ctl [] =
     (if fs_closing env then Some (- 1, ctl) else Some (last_pos, ctl))"
| "extent_tree_walk env block_group last_pos ctl (key # rest) =
     (if fs_closing env then Some (- 1, ctl)
      else if objectid key < last_pos then
        extent_tree_walk env block_group last_pos ctl
          (btrfs_search_slot \<lparr>objectid = last_pos, type = BTRFS_EXTENT_ITEM_KEY, offset = 0\<rparr>
             (key # rest))
      else if objectid key < start block_group then
        extent_tree_walk env block_group last_pos ctl rest
      else if objectid key \<ge> start block_group + length_bg block_group then Some (last_pos, ctl)
      else if type key = BTRFS_EXTENT_ITEM_KEY \<or> type key = BTRFS_METADATA_ITEM_KEY then
        (case btrfs_add_new_free_space env last_pos (objectid key) (ctl, 0) of
           None \<Rightarrow> None
         | Some (ctl', space_added) \<Rightarrow>
             extent_tree_walk env block_group
               (if type key = BTRFS_METADATA_ITEM_KEY then objectid key + nodesize env
                else objectid key + offset key)
               ctl' rest)
      else extent_tree_walk env block_group last_pos ctl rest)"
  by pat_completeness auto
termination
  by (relation "measure (\<lambda>(env, bg, last_pos, ctl, keys). length keys)")
     (auto simp: btrfs_search_slot_def key_before_def le_imp_less_Suc length_dropWhile_le)

definition load_extent_tree_free ::
  "caching_env \<Rightarrow> btrfs_block_group \<Rightarrow> btrfs_key list \<Rightarrow> free_space_index option" where
  "load_extent_tree_free env block_group extent_root =
     (let last_pos = max (start block_group) (BTRFS_SUPER_INFO_OFFSET env);
          key = \<lparr>objectid = last_pos, type = BTRFS_EXTENT_ITEM_KEY, offset = 0\<rparr>
      in case extent_tree_walk env block_group last_pos [] (btrfs_search_slot key extent_root) of
           None \<Rightarrow> None
         | Some (last_pos', ctl) \<Rightarrow>
             map_option fst
               (btrfs_add_new_free_space env last_pos'
                  (start block_group + length_bg block_group) (ctl, 0)))"

text \<open>
  The gaps the specification describes: the space between the end of one used extent and
  the start of the next, and the tail up to the end of the group.
\<close>

fun spec_gaps :: "u64 \<Rightarrow> u64 \<Rightarrow> (u64 \<times> u64) list \<Rightarrow> (u64 \<times> u64) list" where
  "spec_gaps cur e [] = (if cur < e then [(cur, e - cur)] else [])"
| "spec_gaps cur e ((s, l) # used_extents) =
     (if cur < s then [(cur, s - cur)] else []) @ spec_gaps (s + l) e used_extents"

text \<open>
  The extent item of a used range, and used ranges in order inside \<open>[lo, hi)\<close>: each
  starts at or after the end of the one before and before \<open>hi\<close>, and the last one ends at
  or before \<open>hi\<close>.
\<close>

definition extent_item :: "u64 \<times> u64 \<Rightarrow> btrfs_key" where
  "extent_item x = \<lparr>objectid = fst x, type = BTRFS_EXTENT_ITEM_KEY, offset = snd x\<rparr>"

fun extents_in_order :: "nat \<Rightarrow> nat \<Rightarrow> (u64 \<times> u64) list \<Rightarrow> bool" where
  "extents_in_order lo hi [] = (lo \<le> hi)"
| "extents_in_order lo hi ((s, l) # xs) =
     (lo \<le> unat s \<and> unat s < hi \<and> extents_in_order (unat s + unat l) hi xs)"

definition free_total :: "(u64 \<times> u64) list \<Rightarrow> u64" where
  "free_total ctl = sum_list (map snd ctl)"

text \<open>
  The used-extent records that an extent tree holds inside the range of a group, in the
  order of the tree.  An extent item \<open>(objectid, EXTENT_ITEM, offset)\<close> is the used range
  of \<open>offset\<close> bytes at \<open>objectid\<close>; a metadata item \<open>(objectid, METADATA_ITEM, level)\<close>
  is the tree block of \<open>nodesize\<close> bytes at \<open>objectid\<close>.  Items of any other type
  (back references, the block-group item) stand for no used range.
\<close>

definition key_in_group :: "btrfs_block_group \<Rightarrow> btrfs_key \<Rightarrow> bool" where
  "key_in_group bg k \<longleftrightarrow> start bg \<le> objectid k \<and> objectid k < start bg + length_bg bg"

definition used_extent_key :: "btrfs_key \<Rightarrow> bool" where
  "used_extent_key k \<longleftrightarrow> type k = BTRFS_EXTENT_ITEM_KEY \<or> type k = BTRFS_METADATA_ITEM_KEY"

definition used_extent_record :: "caching_env \<Rightarrow> btrfs_key \<Rightarrow> u64 \<times> u64" where
  "used_extent_record env k =
     (objectid k, if type k = BTRFS_METADATA_ITEM_KEY then nodesize env else offset k)"

definition scan_used_extents_in_range ::
  "caching_env \<Rightarrow> btrfs_block_group \<Rightarrow> btrfs_key list \<Rightarrow> (u64 \<times> u64) list" where
  "scan_used_extents_in_range env bg extent_root =
     map (used_extent_record env)
       (filter (\<lambda>k. key_in_group bg k \<and> used_extent_key k) extent_root)"

text \<open>
  No excluded range reaches into the group: each one ends before the group starts or
  starts at or after its end.
\<close>

definition excluded_outside :: "caching_env \<Rightarrow> btrfs_block_group \<Rightarrow> bool" where
  "excluded_outside env bg \<longleftrightarrow>
     list_all (\<lambda>(extent_start, extent_end).
                 extent_end < start bg \<or> start bg + length_bg bg \<le> extent_start)
       (excluded_extents env)"

definition quiet_caching_env :: "u64 \<Rightarrow> caching_env" where
  "quiet_caching_env super_offset =
     \<lparr>nodesize = 16384, BTRFS_SUPER_INFO_OFFSET = super_offset, excluded_extents = [],
      fs_closing = False\<rparr>"

text \<open>
  A group as \<^verbatim>\<open>btrfs_make_block_group\<close> sets it up before it is registered: created
  zeroed with one reference, marked new, with its length and type.
\<close>

definition make_group :: "u64 \<Rightarrow> u64 \<Rightarrow> u64 \<Rightarrow> btrfs_block_group" where
  "make_group chunk_offset sz ty =
     (btrfs_create_block_group_cache chunk_offset)\<lparr>length_bg := sz, flags := ty, flag_new := True\<rparr>"

subsection \<open>The reclaim pass over underused groups\<close>




record reclaim_env =
  fs :: fs_env
  fs_open :: bool
  fs_is_closing :: bool
  zoned_should_reclaim :: bool
  exclop_start_ok :: bool
  reclaim_bgs_trylock :: bool
  relock_after :: "u64 \<Rightarrow> bool"
  need_cleaner_sleep :: bool
  btrfs_relocate_chunk :: "u64 \<Rightarrow> errno option"










subsection \<open>What the specification says of a reclaim pass\<close>







subsection \<open>Operations on one group as a state machine\<close>

text \<open>
  The calls that change the counters of one group, as operations on the superblock's
  \<open>bytes_used\<close>, the group and its space info.  A run continues after a call that
  returns an error and stops at a failed assertion.  The \<open>false\<close> that
  \<^verbatim>\<open>btrfs_inc_block_group_swap_extents\<close> returns for a read-only group is recorded as
  the busy error.
\<close>

datatype bg_op =
    Reserve u64 u64 bool bool
  | Free_Reserved u64 bool
  | Update u64 u64 bool
  | Set_Ro bool
  | Clear_Ro
  | Inc_Swap
  | Dec_Swap int

type_synonym fs_state = "u64 \<times> bg_state"

definition lift_bg_state :: "u64 \<Rightarrow> bg_state result \<Rightarrow> fs_state result" where
  "lift_bg_state sb r = (case r of Ok s \<Rightarrow> Ok (sb, s) | Err e s \<Rightarrow> Err e (sb, s) | Bug \<Rightarrow> Bug)"

fun apply_op :: "fs_env \<Rightarrow> bg_op \<Rightarrow> fs_state \<Rightarrow> fs_state result" where
  "apply_op env (Reserve ram_bytes num_bytes delalloc force_wrong) (sb, st) =
     lift_bg_state sb (btrfs_add_reserved_bytes env ram_bytes num_bytes delalloc force_wrong st)"
| "apply_op env (Free_Reserved num_bytes delalloc) (sb, st) =
     Ok (sb, btrfs_free_reserved_bytes env num_bytes delalloc st)"
| "apply_op env (Update bytenr num_bytes alloc) (sb, st) =
     btrfs_update_block_group env bytenr num_bytes alloc (sb, st)"
| "apply_op env (Set_Ro force) (sb, st) = lift_bg_state sb (inc_block_group_ro env force st)"
| "apply_op env Clear_Ro (sb, st) = lift_bg_state sb (btrfs_dec_block_group_ro env st)"
| "apply_op env Inc_Swap (sb, cache, sinfo) =
     (case btrfs_inc_block_group_swap_extents cache of
        (True, c) \<Rightarrow> Ok (sb, c, sinfo)
      | (False, c) \<Rightarrow> Err ETXTBSY (sb, c, sinfo))"
| "apply_op env (Dec_Swap amount) (sb, cache, sinfo) =
     (case btrfs_dec_block_group_swap_extents cache amount of
        Ok c \<Rightarrow> Ok (sb, c, sinfo) | Err e c \<Rightarrow> Err e (sb, c, sinfo) | Bug \<Rightarrow> Bug)"

fun state_after :: "'a result \<Rightarrow> 'a option" where
  "state_after (Ok s) = Some s"
| "state_after (Err e s) = Some s"
| "state_after Bug = None"

fun run_ops :: "fs_env \<Rightarrow> bg_op list \<Rightarrow> fs_state \<Rightarrow> fs_state option" where
  "run_ops env [] s = Some s"
| "run_ops env (op # ops) s =
     (case state_after (apply_op env op s) of None \<Rightarrow> None | Some s' \<Rightarrow> run_ops env ops s')"

text \<open>
  The two properties of a group that the runs are checked against, and the bounds on the
  amounts that the callers of the operations respect.
\<close>

definition ro_swap_exclusive :: "btrfs_block_group \<Rightarrow> bool" where
  "ro_swap_exclusive bg \<longleftrightarrow> \<not> (ro bg \<noteq> 0 \<and> swap_extents bg \<noteq> 0)"

definition bytes_accounted :: "btrfs_block_group \<Rightarrow> nat" where
  "bytes_accounted bg = unat (used bg) + unat (reserved bg) + unat (pinned bg) +
      unat (bytes_super bg) + unat (zone_unusable bg)"

definition accounting_fits :: "btrfs_block_group \<Rightarrow> bool" where
  "accounting_fits bg \<longleftrightarrow> bytes_accounted bg \<le> unat (length_bg bg)"


text \<open>Running operations for as long as every one of them returns success.\<close>

fun run_ok :: "fs_env \<Rightarrow> bg_op list \<Rightarrow> fs_state \<Rightarrow> fs_state option" where
  "run_ok env [] s = Some s"
| "run_ok env (op # ops) s =
     (case apply_op env op s of Ok s' \<Rightarrow> run_ok env ops s' | Err e s' \<Rightarrow> None | Bug \<Rightarrow> None)"


text \<open>The free bytes of a group, as both read-only functions compute them.\<close>

definition bg_free_bytes :: "btrfs_block_group \<Rightarrow> u64" where
  "bg_free_bytes cache =
     length_bg cache - reserved cache - pinned cache - bytes_super cache -
     zone_unusable cache - used cache"

subsection \<open>Properties of the registry\<close>

text \<open>The range of a group, over the natural numbers.\<close>

definition group_end :: "btrfs_block_group \<Rightarrow> nat" where
  "group_end g = unat (start g) + unat (length_bg g)"

definition group_contains :: "btrfs_block_group \<Rightarrow> u64 \<Rightarrow> bool" where
  "group_contains g bytenr \<longleftrightarrow> unat (start g) \<le> unat bytenr \<and> unat bytenr < group_end g"

text \<open>The tree is ordered by \<open>start\<close>, all keys strictly between the two bounds.\<close>

fun starts_between :: "int \<Rightarrow> int \<Rightarrow> bg_tree \<Rightarrow> bool" where
  "starts_between lo hi Leaf = True"
| "starts_between lo hi (Node l g r) =
     (lo < uint (start g) \<and> uint (start g) < hi \<and>
      starts_between lo (uint (start g)) l \<and> starts_between (uint (start g)) hi r)"

definition search_ordered :: "bg_tree \<Rightarrow> bool" where
  "search_ordered t = starts_between (- 1) (2 ^ 64) t"

text \<open>
  The tree is ordered and the ranges of its groups are non-empty, lie inside the bounds
  and do not overlap.
\<close>

fun ranges_between :: "nat \<Rightarrow> nat \<Rightarrow> bg_tree \<Rightarrow> bool" where
  "ranges_between lo hi Leaf = True"
| "ranges_between lo hi (Node l g r) =
     (length_bg g \<noteq> 0 \<and> lo \<le> unat (start g) \<and> group_end g \<le> hi \<and>
      ranges_between lo (unat (start g)) l \<and> ranges_between (group_end g) hi r)"

definition ranges_disjoint :: "bg_tree \<Rightarrow> bool" where
  "ranges_disjoint t = ranges_between 0 (2 ^ 64) t"

subsection \<open>Example states\<close>

definition MiB :: u64 where "MiB = 1048576"

definition example_env :: fs_env where
  "example_env =
     \<lparr>is_zoned = False, discard_async = False, can_overcommit = (\<lambda>sinfo bytes. False),
      bg_type_to_factor = (\<lambda>fl. 1)\<rparr>"

definition zoned_env :: fs_env where
  "zoned_env = example_env\<lparr>is_zoned := True\<rparr>"

definition zoned_group :: btrfs_block_group where
  "zoned_group =
     (make_group 0 (1024 * MiB) BTRFS_BLOCK_GROUP_DATA)
       \<lparr>used := 100 * MiB, zone_unusable := 20 * MiB, alloc_offset := 120 * MiB,
        zone_capacity := 1024 * MiB\<rparr>"

definition data_space_info :: "u64 \<Rightarrow> btrfs_space_info" where
  "data_space_info capacity =
     \<lparr>btrfs_space_info.flags = BTRFS_BLOCK_GROUP_DATA, total_bytes = capacity, bytes_used = 0,
      bytes_reserved = 0, bytes_pinned = 0, bytes_readonly = 0, bytes_zone_unusable = 0,
      bytes_may_use = 0, disk_used = 0, max_extent_size = 0, bg_reclaim_threshold = 0,
      tickets = []\<rparr>"

text \<open>
  A group of 1024 MiB with 900 MiB used, and its data class with 100 MiB soft-reserved and
  two tickets waiting for room: one for 30 MiB, one for more than the class holds.
\<close>

definition nearly_full_group :: btrfs_block_group where
  "nearly_full_group = (make_group 0 (1024 * MiB) BTRFS_BLOCK_GROUP_DATA)\<lparr>used := 900 * MiB\<rparr>"

definition waiting_space_info :: btrfs_space_info where
  "waiting_space_info =
     (data_space_info (1024 * MiB))
       \<lparr>bytes_used := 900 * MiB, bytes_may_use := 100 * MiB,
        tickets := [30 * MiB, 2048 * MiB]\<rparr>"


definition swap_scenario_ops :: "bg_op list" where
  "swap_scenario_ops =
     [Inc_Swap, Set_Ro True, Dec_Swap 1, Set_Ro True, Inc_Swap, Set_Ro False, Clear_Ro, Clear_Ro]"

definition commit_scenario_ops :: "bg_op list" where
  "commit_scenario_ops =
     [Reserve (100 * MiB) (100 * MiB) False False, Reserve (100 * MiB) (100 * MiB) False False,
      Update 0 (100 * MiB) True, Update (100 * MiB) (100 * MiB) True,
      Update 0 (50 * MiB) False]"

text \<open>A balance that converts data to RAID1, and two registries.\<close>

definition converting_to_raid1 :: btrfs_balance_control where
  "converting_to_raid1 =
     \<lparr>data = \<lparr>btrfs_balance_args.flags = BTRFS_BALANCE_ARGS_CONVERT,
                target = BTRFS_BLOCK_GROUP_RAID1\<rparr>,
      sys = \<lparr>btrfs_balance_args.flags = 0, target = 0\<rparr>,
      meta = \<lparr>btrfs_balance_args.flags = 0, target = 0\<rparr>\<rparr>"

definition two_groups :: bg_tree where
  "two_groups =
     Node (Node Leaf (make_group 0 (100 * MiB) BTRFS_BLOCK_GROUP_DATA) Leaf)
          (make_group (100 * MiB) (100 * MiB) BTRFS_BLOCK_GROUP_DATA) Leaf"

definition overlapping_groups :: bg_tree where
  "overlapping_groups =
     Node (Node Leaf (make_group 0 100 BTRFS_BLOCK_GROUP_DATA) Leaf)
          (make_group 10 10 BTRFS_BLOCK_GROUP_DATA) Leaf"

text \<open>What the scan leaves in the index: the walk, then the insert of the tail gap.\<close>

definition scan_result ::
  "caching_env \<Rightarrow> btrfs_block_group \<Rightarrow> (u64 \<times> free_space_index) option \<Rightarrow> free_space_index option" where
  "scan_result env bg r =
     (case r of
        None \<Rightarrow> None
      | Some (last_pos', ctl) \<Rightarrow>
          map_option fst
            (btrfs_add_new_free_space env last_pos' (start bg + length_bg bg) (ctl, 0)))"

text \<open>
  A filesystem with the superblock copies at 64 KiB and 64 MiB excluded and tree blocks of
  10 bytes, and an extent tree: an extent below the group that starts at 1 MiB, and for
  that group a data extent of 10 bytes with a back reference (type 178), the block-group
  item (type 192), a tree block with a back reference (type 176), and an extent beyond
  the group's 40 bytes.
\<close>

definition example_caching_env :: caching_env where
  "example_caching_env =
     \<lparr>nodesize = 10, BTRFS_SUPER_INFO_OFFSET = 65536,
      excluded_extents = [(65536, 69631), (67108864, 67112959)], fs_closing = False\<rparr>"

definition example_extent_root :: "btrfs_key list" where
  "example_extent_root =
     [\<lparr>objectid = 4096, type = BTRFS_EXTENT_ITEM_KEY, offset = 4096\<rparr>,
      \<lparr>objectid = 1048576, type = BTRFS_EXTENT_ITEM_KEY, offset = 10\<rparr>,
      \<lparr>objectid = 1048576, type = 178, offset = 5\<rparr>,
      \<lparr>objectid = 1048576, type = 192, offset = 40\<rparr>,
      \<lparr>objectid = 1048596, type = BTRFS_METADATA_ITEM_KEY, offset = 0\<rparr>,
      \<lparr>objectid = 1048596, type = 176, offset = 5\<rparr>,
      \<lparr>objectid = 1048616, type = BTRFS_EXTENT_ITEM_KEY, offset = 8\<rparr>]"








section \<open>Lemmas on the accounting functions\<close>

lemma add_reserved_ro:
  "ro cache \<noteq> 0 \<Longrightarrow> btrfs_add_reserved_bytes env ram num d f (cache, sinfo) = Err EAGAIN (cache, sinfo)"
  by (simp add: btrfs_add_reserved_bytes_def)

lemma use_size_class_cases:
  "btrfs_use_block_group_size_class c sc f = Ok c' \<Longrightarrow> c' = c \<or> c' = c\<lparr>size_class := sc\<rparr>"
  by (auto simp: btrfs_use_block_group_size_class_def split: if_splits)

lemma use_size_class_err:
  "btrfs_use_block_group_size_class c sc f = Err e c' \<Longrightarrow> c' = c"
  by (auto simp: btrfs_use_block_group_size_class_def split: if_splits)

lemma lookup_single:
  "snd (btrfs_lookup_block_group (Node Leaf c Leaf) b) = Some c' \<Longrightarrow> c' = btrfs_get_block_group c"
  by (auto simp: btrfs_lookup_block_group_def block_group_cache_tree_search_def Let_def
      split: if_splits option.splits)

lemma apply_op_ro_swap:
  "ro_swap_exclusive (fst (snd s)) \<Longrightarrow> state_after (apply_op env op s) = Some s' \<Longrightarrow> ro_swap_exclusive (fst (snd s'))"
  apply (cases s; cases op)
  apply (auto simp: ro_swap_exclusive_def lift_bg_state_def btrfs_add_reserved_bytes_def
     btrfs_free_reserved_bytes_def btrfs_update_block_group_def inc_block_group_ro_def
     btrfs_dec_block_group_ro_def btrfs_inc_block_group_swap_extents_def btrfs_dec_block_group_swap_extents_def
     btrfs_mark_bg_unused_def btrfs_mark_bg_to_reclaim_def btrfs_get_block_group_def
     btrfs_put_block_group_def Let_def
     dest!: use_size_class_cases use_size_class_err lookup_single
     split: if_splits result.splits option.splits prod.splits)
  done

lemma grant_tickets_fields:
  "btrfs_space_info.flags (grant_tickets env ts s) = btrfs_space_info.flags s"
  "total_bytes (grant_tickets env ts s) = total_bytes s"
  "bytes_used (grant_tickets env ts s) = bytes_used s"
  "bytes_reserved (grant_tickets env ts s) = bytes_reserved s"
  "bytes_pinned (grant_tickets env ts s) = bytes_pinned s"
  "bytes_readonly (grant_tickets env ts s) = bytes_readonly s"
  "bytes_zone_unusable (grant_tickets env ts s) = bytes_zone_unusable s"
  "disk_used (grant_tickets env ts s) = disk_used s"
  "max_extent_size (grant_tickets env ts s) = max_extent_size s"
  "bg_reclaim_threshold (grant_tickets env ts s) = bg_reclaim_threshold s"
  by (induction ts arbitrary: s; simp add: btrfs_space_info_update_bytes_may_use_def)+

lemma grant_tickets_granted:
  "\<exists>granted. ts = granted @ tickets (grant_tickets env ts s) \<and>
      bytes_may_use (grant_tickets env ts s) = bytes_may_use s + sum_list granted"
proof (induction ts arbitrary: s)
  case Nil
  then show ?case by simp
next
  case (Cons t ts)
  show ?case
  proof (cases "btrfs_space_info_used s True + t \<le> total_bytes s \<or> can_overcommit env s t")
    case True
    from Cons.IH[of "btrfs_space_info_update_bytes_may_use s t"] obtain granted where
      g: "ts = granted @ tickets (grant_tickets env ts (btrfs_space_info_update_bytes_may_use s t))"
      and b: "bytes_may_use (grant_tickets env ts (btrfs_space_info_update_bytes_may_use s t))
          = bytes_may_use (btrfs_space_info_update_bytes_may_use s t) + sum_list granted"
      by blast
    from True g have "t # ts = (t # granted) @ tickets (grant_tickets env (t # ts) s)" by simp
    moreover from True b have "bytes_may_use (grant_tickets env (t # ts) s)
        = bytes_may_use s + sum_list (t # granted)"
      by (simp add: btrfs_space_info_update_bytes_may_use_def add.assoc)
    ultimately show ?thesis by blast
  next
    case False
    then have "t # ts = [] @ tickets (grant_tickets env (t # ts) s)"
      and "bytes_may_use (grant_tickets env (t # ts) s) = bytes_may_use s + sum_list []"
      by simp_all
    then show ?thesis by blast
  qed
qed



lemma add_reserved_effect:
  assumes "btrfs_add_reserved_bytes env ram num d f (cache, sinfo) = Ok (c', s')"
  shows "ro cache = 0" "used c' = used cache" "reserved c' = reserved cache + num"
    "pinned c' = pinned cache" "bytes_super c' = bytes_super cache"
    "zone_unusable c' = zone_unusable cache" "length_bg c' = length_bg cache"
    "ro c' = ro cache" "swap_extents c' = swap_extents cache"
    "bytes_reserved s' = bytes_reserved sinfo + num"
    "bytes_used s' = bytes_used sinfo" "bytes_readonly s' = bytes_readonly sinfo"
    "delalloc_bytes c' = (if d then delalloc_bytes cache + num else delalloc_bytes cache)"
  using assms
  by (auto simp: btrfs_add_reserved_bytes_def Let_def btrfs_space_info_update_bytes_may_use_def
      btrfs_try_granting_tickets_def grant_tickets_fields
      dest!: use_size_class_cases split: if_splits result.splits)





lemma update_alloc_effect:
  assumes "btrfs_update_block_group env bytenr num True (sb, cache, sinfo) = Ok (sb', c', s')"
  shows "used c' = used cache + num" "reserved c' = reserved cache - num"
    "pinned c' = pinned cache" "bytes_super c' = bytes_super cache"
    "zone_unusable c' = zone_unusable cache" "length_bg c' = length_bg cache"
    "ro c' = ro cache" "swap_extents c' = swap_extents cache"
    "bytes_reserved s' = bytes_reserved sinfo - num"
    "bytes_used s' = bytes_used sinfo + num" "sb' = sb + num"
  using assms
  by (auto simp: btrfs_update_block_group_def Let_def btrfs_get_block_group_def
      btrfs_put_block_group_def dest!: lookup_single split: if_splits option.splits)

lemma mark_unused_counters:
  "used (btrfs_mark_bg_unused c) = used c" "reserved (btrfs_mark_bg_unused c) = reserved c"
  "pinned (btrfs_mark_bg_unused c) = pinned c" "bytes_super (btrfs_mark_bg_unused c) = bytes_super c"
  "zone_unusable (btrfs_mark_bg_unused c) = zone_unusable c"
  "length_bg (btrfs_mark_bg_unused c) = length_bg c"
  "ro (btrfs_mark_bg_unused c) = ro c" "swap_extents (btrfs_mark_bg_unused c) = swap_extents c"
  by (simp_all add: btrfs_mark_bg_unused_def btrfs_get_block_group_def)

lemma mark_reclaim_counters:
  "used (btrfs_mark_bg_to_reclaim c) = used c" "reserved (btrfs_mark_bg_to_reclaim c) = reserved c"
  "pinned (btrfs_mark_bg_to_reclaim c) = pinned c"
  "bytes_super (btrfs_mark_bg_to_reclaim c) = bytes_super c"
  "zone_unusable (btrfs_mark_bg_to_reclaim c) = zone_unusable c"
  "length_bg (btrfs_mark_bg_to_reclaim c) = length_bg c"
  "ro (btrfs_mark_bg_to_reclaim c) = ro c"
  "swap_extents (btrfs_mark_bg_to_reclaim c) = swap_extents c"
  by (simp_all add: btrfs_mark_bg_to_reclaim_def btrfs_get_block_group_def)

lemma update_free_effect:
  assumes "btrfs_update_block_group env bytenr num False (sb, cache, sinfo) = Ok (sb', c', s')"
  shows "used c' = used cache - num" "reserved c' = reserved cache"
    "pinned c' = pinned cache + num" "bytes_super c' = bytes_super cache"
    "zone_unusable c' = zone_unusable cache" "length_bg c' = length_bg cache"
    "ro c' = ro cache" "swap_extents c' = swap_extents cache"
    "bytes_pinned s' = bytes_pinned sinfo + num"
    "bytes_used s' = bytes_used sinfo - num" "sb' = sb - num"
  using assms
  by (auto simp: btrfs_update_block_group_def Let_def mark_unused_counters mark_reclaim_counters
      btrfs_space_info_update_bytes_pinned_def btrfs_get_block_group_def btrfs_put_block_group_def
      dest!: lookup_single split: if_splits option.splits)



lemma inc_ro_busy:
  "swap_extents cache \<noteq> 0 \<Longrightarrow> inc_block_group_ro env force (cache, sinfo) = Err ETXTBSY (cache, sinfo)"
  by (simp add: inc_block_group_ro_def)


lemma inc_ro_ok_effect:
  assumes "inc_block_group_ro env force (cache, sinfo) = Ok (c', s')"
  shows "swap_extents cache = 0" "ro c' = ro cache + 1" "used c' = used cache"
    "reserved c' = reserved cache" "pinned c' = pinned cache" "bytes_super c' = bytes_super cache"
    "length_bg c' = length_bg cache" "swap_extents c' = swap_extents cache"
    "zone_unusable c' = (if is_zoned env \<and> ro cache = 0 then 0 else zone_unusable cache)"
  using assms by (auto simp: inc_block_group_ro_def Let_def split: if_splits)


lemma dec_ro_effect:
  assumes "btrfs_dec_block_group_ro env (cache, sinfo) = Ok (c', s')"
  shows "ro cache \<noteq> 0" "ro c' = ro cache - 1" "used c' = used cache"
    "reserved c' = reserved cache" "pinned c' = pinned cache" "bytes_super c' = bytes_super cache"
    "length_bg c' = length_bg cache" "swap_extents c' = swap_extents cache"
    "zone_unusable c' = (if is_zoned env \<and> ro cache = 1
        then (alloc_offset cache - used cache) + (length_bg cache - zone_capacity cache)
        else zone_unusable cache)"
  using assms by (auto simp: btrfs_dec_block_group_ro_def Let_def split: if_splits)







lemma run_ops_ro_swap:
  "ro_swap_exclusive (fst (snd s)) \<Longrightarrow> run_ops env ops s = Some s' \<Longrightarrow>
   ro_swap_exclusive (fst (snd s'))"
proof (induction ops arbitrary: s)
  case Nil
  then show ?case by simp
next
  case (Cons op ops)
  from Cons.prems(2) obtain s1 where s1: "state_after (apply_op env op s) = Some s1"
    and r: "run_ops env ops s1 = Some s'"
    by (auto split: option.splits)
  from Cons.prems(1) s1 have "ro_swap_exclusive (fst (snd s1))" by (rule apply_op_ro_swap)
  then show ?case using r by (rule Cons.IH)
qed

lemma lift_bg_state_Ok:
  "lift_bg_state sb r = Ok x \<Longrightarrow> \<exists>st. r = Ok st \<and> x = (sb, st)"
  by (auto simp: lift_bg_state_def split: result.splits)

lemma run_ok_Cons:
  "run_ok env (op # ops) s \<noteq> None \<Longrightarrow> \<exists>s1. apply_op env op s = Ok s1 \<and> run_ok env ops s1 \<noteq> None"
  by (auto split: result.splits)

lemma run_ok_Cons_eq:
  "apply_op env op s = Ok s1 \<Longrightarrow> run_ok env (op # ops) s = run_ok env ops s1"
  by simp

lemma inc_ro_forced:
  "swap_extents cache = 0 \<Longrightarrow>
   \<exists>cache' sinfo'. inc_block_group_ro env True (cache, sinfo) = Ok (cache', sinfo') \<and>
      ro cache' = ro cache + 1"
  by (simp add: inc_block_group_ro_def Let_def)

lemma inc_ro_data_enospc:
  assumes "swap_extents cache = 0" "ro cache = 0"
    "btrfs_space_info.flags sinfo AND BTRFS_BLOCK_GROUP_DATA \<noteq> 0"
  shows "(inc_block_group_ro env False (cache, sinfo) = Err ENOSPC (cache, sinfo))
       = (\<not> btrfs_space_info_used sinfo True + bg_free_bytes cache \<le> total_bytes sinfo)"
  using assms by (simp add: inc_block_group_ro_def Let_def bg_free_bytes_def)

lemma ro_update_same: "ro c = v \<Longrightarrow> c\<lparr>ro := v\<rparr> = c"
  by auto






lemmas eval_defs =
  MiB_def example_env_def zoned_env_def zoned_group_def data_space_info_def make_group_def btrfs_create_block_group_cache_def
  lift_bg_state_def btrfs_add_reserved_bytes_def btrfs_free_reserved_bytes_def
  btrfs_update_block_group_def inc_block_group_ro_def btrfs_dec_block_group_ro_def
  btrfs_inc_block_group_swap_extents_def btrfs_dec_block_group_swap_extents_def
  btrfs_block_group_should_use_size_class_def btrfs_is_block_group_data_only_def
  btrfs_use_block_group_size_class_def btrfs_calc_block_group_size_class_def
  btrfs_space_info_update_bytes_may_use_def btrfs_space_info_update_bytes_pinned_def
  btrfs_space_info_used_def should_reclaim_block_group_def mult_perc_def
  btrfs_mark_bg_unused_def btrfs_mark_bg_to_reclaim_def btrfs_get_block_group_def
  btrfs_put_block_group_def btrfs_lookup_block_group_def block_group_cache_tree_search_def
  btrfs_try_granting_tickets_def
  BTRFS_BLOCK_GROUP_DATA_def BTRFS_BLOCK_GROUP_METADATA_def SZ_128K_def SZ_8M_def
  accounting_fits_def bytes_accounted_def bg_free_bytes_def Let_def

section \<open>The accounting inequality\<close>




section \<open>Reservations and the read-only gate\<close>

lemma add_reserved_space_info:
  assumes "btrfs_add_reserved_bytes env ram num d f (cache, sinfo) = Ok (c', s')"
  shows "s' = (if num < ram then btrfs_try_granting_tickets env else id)
                (sinfo\<lparr>bytes_reserved := bytes_reserved sinfo + num,
                       bytes_may_use := bytes_may_use sinfo - ram\<rparr>)"
  using assms
  by (auto simp: btrfs_add_reserved_bytes_def Let_def btrfs_space_info_update_bytes_may_use_def
      split: if_splits result.splits)

lemma add_reserved_granted:
  assumes "btrfs_add_reserved_bytes env ram num d f (cache, sinfo) = Ok (c', s')"
  shows "\<exists>granted. tickets sinfo = granted @ tickets s' \<and>
           bytes_may_use s' = bytes_may_use sinfo - ram + sum_list granted \<and>
           (granted \<noteq> [] \<longrightarrow> num < ram)"
proof (cases "num < ram")
  case True
  let ?s2 = "sinfo\<lparr>bytes_reserved := bytes_reserved sinfo + num,
                       bytes_may_use := bytes_may_use sinfo - ram\<rparr>"
  from True add_reserved_space_info[OF assms] have s': "s' = grant_tickets env (tickets sinfo) ?s2"
    by (simp add: btrfs_try_granting_tickets_def)
  from grant_tickets_granted[of "tickets sinfo" env ?s2] True show ?thesis
    unfolding s' by auto
next
  case False
  with add_reserved_space_info[OF assms] have "tickets sinfo = [] @ tickets s'"
    and "bytes_may_use s' = bytes_may_use sinfo - ram + sum_list []" by simp_all
  with False show ?thesis by blast
qed

text \<open>
  Claim C2, as amended.  A group whose read-only counter is nonzero refuses a new
  reservation with \<^verbatim>\<open>-EAGAIN\<close> and the group and its space info are left exactly as they
  were.  With the counter at zero and the size class admitted, \<open>num_bytes\<close> is added to
  the group's \<open>reserved\<close> and to the class's \<open>bytes_reserved\<close> and \<open>ram_bytes\<close> is
  taken off \<open>bytes_may_use\<close>; when \<open>num_bytes\<close> is below \<open>ram_bytes\<close> (the
  compression path) the function then tries to grant the tickets that wait on the class,
  and every ticket it grants leaves the head of the queue and adds its bytes to
  \<open>bytes_may_use\<close>.  So \<open>bytes_may_use\<close> ends at its old value minus \<open>ram_bytes\<close>
  plus the bytes of the tickets granted, and no ticket is granted unless
  \<open>num_bytes < ram_bytes\<close>.
\<close>

theorem add_reserved_bytes_ro_gate:
  "(ro cache \<noteq> 0 \<longrightarrow>
      btrfs_add_reserved_bytes env ram_bytes num_bytes delalloc force (cache, sinfo)
        = Err EAGAIN (cache, sinfo)) \<and>
   (ro cache = 0 \<and>
    (btrfs_block_group_should_use_size_class env cache \<longrightarrow>
       (\<exists>c. btrfs_use_block_group_size_class cache
               (btrfs_calc_block_group_size_class num_bytes) force = Ok c)) \<longrightarrow>
      (\<exists>cache' sinfo' granted.
         btrfs_add_reserved_bytes env ram_bytes num_bytes delalloc force (cache, sinfo)
           = Ok (cache', sinfo') \<and>
         reserved cache' = reserved cache + num_bytes \<and>
         bytes_reserved sinfo' = bytes_reserved sinfo + num_bytes \<and>
         tickets sinfo = granted @ tickets sinfo' \<and>
         bytes_may_use sinfo' = bytes_may_use sinfo - ram_bytes + sum_list granted \<and>
         (granted \<noteq> [] \<longrightarrow> num_bytes < ram_bytes) \<and>
         sinfo' = (if num_bytes < ram_bytes then btrfs_try_granting_tickets env else id)
                    (sinfo\<lparr>bytes_reserved := bytes_reserved sinfo + num_bytes,
                           bytes_may_use := bytes_may_use sinfo - ram_bytes\<rparr>) \<and>
         used cache' = used cache \<and> ro cache' = 0 \<and>
         delalloc_bytes cache' =
           (if delalloc then delalloc_bytes cache + num_bytes else delalloc_bytes cache)))"
proof (intro conjI impI)
  assume "ro cache \<noteq> 0"
  then show "btrfs_add_reserved_bytes env ram_bytes num_bytes delalloc force (cache, sinfo)
        = Err EAGAIN (cache, sinfo)"
    by (rule add_reserved_ro)
next
  assume a: "ro cache = 0 \<and>
    (btrfs_block_group_should_use_size_class env cache \<longrightarrow>
       (\<exists>c. btrfs_use_block_group_size_class cache
               (btrfs_calc_block_group_size_class num_bytes) force = Ok c))"
  then have "\<exists>st. btrfs_add_reserved_bytes env ram_bytes num_bytes delalloc force (cache, sinfo) = Ok st"
    by (cases "btrfs_block_group_should_use_size_class env cache")
       (auto simp: btrfs_add_reserved_bytes_def Let_def)
  then obtain st where ok: "btrfs_add_reserved_bytes env ram_bytes num_bytes delalloc force (cache, sinfo) = Ok st"
    by blast
  obtain cache' sinfo' where st: "st = (cache', sinfo')" by (cases st)
  from ok st have ok': "btrfs_add_reserved_bytes env ram_bytes num_bytes delalloc force (cache, sinfo) = Ok (cache', sinfo')"
    by simp
  from add_reserved_granted[OF ok'] obtain granted where
    g: "tickets sinfo = granted @ tickets sinfo'"
       "bytes_may_use sinfo' = bytes_may_use sinfo - ram_bytes + sum_list granted"
       "granted \<noteq> [] \<longrightarrow> num_bytes < ram_bytes" by blast
  have e: "reserved cache' = reserved cache + num_bytes"
    "bytes_reserved sinfo' = bytes_reserved sinfo + num_bytes"
    "used cache' = used cache" "ro cache' = 0"
    "delalloc_bytes cache' =
           (if delalloc then delalloc_bytes cache + num_bytes else delalloc_bytes cache)"
    using a add_reserved_effect[OF ok'] by simp_all
  from ok' g e add_reserved_space_info[OF ok'] show "\<exists>cache' sinfo' granted.
         btrfs_add_reserved_bytes env ram_bytes num_bytes delalloc force (cache, sinfo)
           = Ok (cache', sinfo') \<and>
         reserved cache' = reserved cache + num_bytes \<and>
         bytes_reserved sinfo' = bytes_reserved sinfo + num_bytes \<and>
         tickets sinfo = granted @ tickets sinfo' \<and>
         bytes_may_use sinfo' = bytes_may_use sinfo - ram_bytes + sum_list granted \<and>
         (granted \<noteq> [] \<longrightarrow> num_bytes < ram_bytes) \<and>
         sinfo' = (if num_bytes < ram_bytes then btrfs_try_granting_tickets env else id)
                    (sinfo\<lparr>bytes_reserved := bytes_reserved sinfo + num_bytes,
                           bytes_may_use := bytes_may_use sinfo - ram_bytes\<rparr>) \<and>
         used cache' = used cache \<and> ro cache' = 0 \<and>
         delalloc_bytes cache' =
           (if delalloc then delalloc_bytes cache + num_bytes else delalloc_bytes cache)"
    by blast
qed

theorem add_reserved_bytes_ro_gate_witness:
  "btrfs_add_reserved_bytes example_env (100 * MiB) (100 * MiB) False False
     ((make_group 0 (1024 * MiB) BTRFS_BLOCK_GROUP_DATA)\<lparr>ro := 1\<rparr>, data_space_info (1024 * MiB))
     = Err EAGAIN
         ((make_group 0 (1024 * MiB) BTRFS_BLOCK_GROUP_DATA)\<lparr>ro := 1\<rparr>, data_space_info (1024 * MiB)) \<and>
   map_option (reserved \<circ> fst)
     (state_after (btrfs_add_reserved_bytes example_env (100 * MiB) (100 * MiB) False False
        (nearly_full_group, waiting_space_info)))
     = Some (100 * MiB) \<and>
   map_option (bytes_may_use \<circ> snd)
     (state_after (btrfs_add_reserved_bytes example_env (100 * MiB) (100 * MiB) False False
        (nearly_full_group, waiting_space_info)))
     = Some 0 \<and>
   map_option (tickets \<circ> snd)
     (state_after (btrfs_add_reserved_bytes example_env (100 * MiB) (100 * MiB) False False
        (nearly_full_group, waiting_space_info)))
     = Some [30 * MiB, 2048 * MiB] \<and>
   map_option (bytes_may_use \<circ> snd)
     (state_after (btrfs_add_reserved_bytes example_env (100 * MiB) (50 * MiB) False False
        (nearly_full_group, waiting_space_info)))
     = Some (30 * MiB) \<and>
   map_option (tickets \<circ> snd)
     (state_after (btrfs_add_reserved_bytes example_env (100 * MiB) (50 * MiB) False False
        (nearly_full_group, waiting_space_info)))
     = Some [2048 * MiB]"
proof -
  let ?f = "make_group 0 (1024 * MiB) BTRFS_BLOCK_GROUP_DATA"
  let ?g = nearly_full_group
  let ?s = waiting_space_info
  have h1: "ro (?f\<lparr>ro := 1\<rparr>) \<noteq> 0" by simp
  have h2: "ro ?g = 0 \<and>
    (btrfs_block_group_should_use_size_class example_env ?g \<longrightarrow>
       (\<exists>c. btrfs_use_block_group_size_class ?g
               (btrfs_calc_block_group_size_class (100 * MiB)) False = Ok c))"
    by (simp add: nearly_full_group_def eval_defs)
  have h3: "ro ?g = 0 \<and>
    (btrfs_block_group_should_use_size_class example_env ?g \<longrightarrow>
       (\<exists>c. btrfs_use_block_group_size_class ?g
               (btrfs_calc_block_group_size_class (50 * MiB)) False = Ok c))"
    by (simp add: nearly_full_group_def eval_defs)
  have t: "tickets ?s = [30 * MiB, 2048 * MiB]" "bytes_may_use ?s = 100 * MiB"
    by (simp_all add: waiting_space_info_def)
  from add_reserved_bytes_ro_gate[where cache = "?f\<lparr>ro := 1\<rparr>" and env = example_env
      and ram_bytes = "100 * MiB" and num_bytes = "100 * MiB" and delalloc = False and force = False
      and sinfo = "data_space_info (1024 * MiB)"] h1
  have c1: "btrfs_add_reserved_bytes example_env (100 * MiB) (100 * MiB) False False
     (?f\<lparr>ro := 1\<rparr>, data_space_info (1024 * MiB))
     = Err EAGAIN (?f\<lparr>ro := 1\<rparr>, data_space_info (1024 * MiB))" by blast
  from add_reserved_bytes_ro_gate[where cache = ?g and env = example_env
      and ram_bytes = "100 * MiB" and num_bytes = "100 * MiB" and delalloc = False and force = False
      and sinfo = ?s] h2
  obtain cache' sinfo' granted where p:
    "btrfs_add_reserved_bytes example_env (100 * MiB) (100 * MiB) False False (?g, ?s) = Ok (cache', sinfo')"
    "reserved cache' = reserved ?g + 100 * MiB"
    "tickets ?s = granted @ tickets sinfo'"
    "bytes_may_use sinfo' = bytes_may_use ?s - 100 * MiB + sum_list granted"
    "granted \<noteq> [] \<longrightarrow> 100 * MiB < 100 * MiB"
    by blast
  from p(5) have gr: "granted = []" by auto
  from p(1,2) have c2: "map_option (reserved \<circ> fst)
     (state_after (btrfs_add_reserved_bytes example_env (100 * MiB) (100 * MiB) False False (?g, ?s)))
     = Some (100 * MiB)"
    by (simp add: nearly_full_group_def make_group_def btrfs_create_block_group_cache_def)
  from p(1,4) gr t have c3: "map_option (bytes_may_use \<circ> snd)
     (state_after (btrfs_add_reserved_bytes example_env (100 * MiB) (100 * MiB) False False (?g, ?s)))
     = Some 0"
    by simp
  from p(1,3) gr t have c4: "map_option (tickets \<circ> snd)
     (state_after (btrfs_add_reserved_bytes example_env (100 * MiB) (100 * MiB) False False (?g, ?s)))
     = Some [30 * MiB, 2048 * MiB]"
    by simp
  from add_reserved_bytes_ro_gate[where cache = ?g and env = example_env
      and ram_bytes = "100 * MiB" and num_bytes = "50 * MiB" and delalloc = False and force = False
      and sinfo = ?s] h3
  obtain cache2 sinfo2 where q:
    "btrfs_add_reserved_bytes example_env (100 * MiB) (50 * MiB) False False (?g, ?s) = Ok (cache2, sinfo2)"
    "sinfo2 = (if 50 * MiB < 100 * MiB then btrfs_try_granting_tickets example_env else id)
                    (?s\<lparr>bytes_reserved := bytes_reserved ?s + 50 * MiB,
                           bytes_may_use := bytes_may_use ?s - 100 * MiB\<rparr>)"
    by blast
  from q(2) have "bytes_may_use sinfo2 = 30 * MiB" "tickets sinfo2 = [2048 * MiB]"
    by (simp_all add: waiting_space_info_def eval_defs)
  with q(1) have c5: "map_option (bytes_may_use \<circ> snd)
     (state_after (btrfs_add_reserved_bytes example_env (100 * MiB) (50 * MiB) False False (?g, ?s)))
     = Some (30 * MiB)"
    and c6: "map_option (tickets \<circ> snd)
     (state_after (btrfs_add_reserved_bytes example_env (100 * MiB) (50 * MiB) False False (?g, ?s)))
     = Some [2048 * MiB]"
    by simp_all
  from c1 c2 c3 c4 c5 c6 show ?thesis by blast
qed

text \<open>
  The claim as stated fails on the compression path: in a class of 1024 MiB with 900 MiB
  used, 100 MiB soft-reserved and a ticket of 30 MiB waiting, a reservation of 50 MiB for
  100 MiB of file content succeeds, makes room for the ticket and leaves
  \<open>bytes_may_use\<close> at 30 MiB, not at 100 MiB minus \<open>ram_bytes\<close>.
\<close>

theorem add_reserved_bytes_compressed_counterexample:
  "ro nearly_full_group = 0 \<and>
   bytes_may_use waiting_space_info - 100 * MiB = 0 \<and>
   btrfs_add_reserved_bytes example_env (100 * MiB) (50 * MiB) False False
     (nearly_full_group, waiting_space_info)
   = Ok (nearly_full_group\<lparr>reserved := 50 * MiB, size_class := BTRFS_BG_SZ_LARGE\<rparr>,
         waiting_space_info
           \<lparr>bytes_reserved := 50 * MiB, bytes_may_use := 30 * MiB, tickets := [2048 * MiB]\<rparr>)"
  by (simp add: nearly_full_group_def waiting_space_info_def eval_defs)

section \<open>Reserve, commit, free\<close>

text \<open>
  Claim C3.  On a group with \<open>used = 0\<close> and \<open>reserved = 0\<close>, two successful
  reservations of \<open>n\<close> bytes leave \<open>reserved = 2n\<close> and \<open>used = 0\<close>; each commit
  moves \<open>n\<close> bytes from \<open>reserved\<close> to \<open>used\<close>, so both commits leave
  \<open>used = 2n\<close> and \<open>reserved = 0\<close>; a free of \<open>m\<close> bytes moves them from
  \<open>used\<close> to \<open>pinned\<close> and the free bytes of the group stay as they were.
\<close>

theorem reserve_commit_free_moves:
  assumes "used c0 = 0" and "reserved c0 = 0"
    and r1: "btrfs_add_reserved_bytes env ram1 n d1 f1 (c0, s0) = Ok (c1, s1)"
    and r2: "btrfs_add_reserved_bytes env ram2 n d2 f2 (c1, s1) = Ok (c2, s2)"
    and u1: "btrfs_update_block_group env b1 n True (sb2, c2, s2) = Ok (sb3, c3, s3)"
    and u2: "btrfs_update_block_group env b2 n True (sb3, c3, s3) = Ok (sb4, c4, s4)"
    and fr: "btrfs_update_block_group env b3 m False (sb4, c4, s4) = Ok (sb5, c5, s5)"
  shows "reserved c2 = 2 * n \<and> used c2 = 0 \<and>
         used c3 = used c2 + n \<and> reserved c3 = reserved c2 - n \<and>
         used c4 = used c3 + n \<and> reserved c4 = reserved c3 - n \<and>
         used c4 = 2 * n \<and> reserved c4 = 0 \<and>
         used c5 = used c4 - m \<and> pinned c5 = pinned c4 + m \<and> reserved c5 = reserved c4 \<and>
         bg_free_bytes c5 = bg_free_bytes c4"
  using assms(1,2)
  by (simp add: add_reserved_effect[OF r1] add_reserved_effect[OF r2]
      update_alloc_effect[OF u1] update_alloc_effect[OF u2] update_free_effect[OF fr]
      bg_free_bytes_def)

theorem reserve_commit_free_moves_witness:
  "used (make_group 0 (1024 * MiB) BTRFS_BLOCK_GROUP_DATA) = 0 \<and>
   reserved (make_group 0 (1024 * MiB) BTRFS_BLOCK_GROUP_DATA) = 0 \<and>
   map_option (reserved \<circ> fst \<circ> snd)
     (run_ok example_env (take 2 commit_scenario_ops)
        (0, make_group 0 (1024 * MiB) BTRFS_BLOCK_GROUP_DATA, data_space_info (1024 * MiB)))
     = Some (200 * MiB) \<and>
   map_option (used \<circ> fst \<circ> snd)
     (run_ok example_env (take 4 commit_scenario_ops)
        (0, make_group 0 (1024 * MiB) BTRFS_BLOCK_GROUP_DATA, data_space_info (1024 * MiB)))
     = Some (200 * MiB) \<and>
   map_option (reserved \<circ> fst \<circ> snd)
     (run_ok example_env (take 4 commit_scenario_ops)
        (0, make_group 0 (1024 * MiB) BTRFS_BLOCK_GROUP_DATA, data_space_info (1024 * MiB)))
     = Some 0 \<and>
   map_option (pinned \<circ> fst \<circ> snd)
     (run_ok example_env commit_scenario_ops
        (0, make_group 0 (1024 * MiB) BTRFS_BLOCK_GROUP_DATA, data_space_info (1024 * MiB)))
     = Some (50 * MiB)"
proof -
  let ?g = "make_group 0 (1024 * MiB) BTRFS_BLOCK_GROUP_DATA"
  let ?s = "data_space_info (1024 * MiB)"
  let ?R = "Reserve (100 * MiB) (100 * MiB) False False"
  let ?U1 = "Update 0 (100 * MiB) True"
  let ?U2 = "Update (100 * MiB) (100 * MiB) True"
  let ?F = "Update 0 (50 * MiB) False"
  have h1: "used ?g = 0" and h2: "reserved ?g = 0" and h3: "pinned ?g = 0"
    by (simp_all add: make_group_def btrfs_create_block_group_cache_def)
  have run: "run_ok example_env [?R, ?R, ?U1, ?U2, ?F] (0, ?g, ?s) \<noteq> None"
    by (simp add: eval_defs)
  from run_ok_Cons[OF run] obtain x1 where a1: "apply_op example_env ?R (0, ?g, ?s) = Ok x1"
    and run1: "run_ok example_env [?R, ?U1, ?U2, ?F] x1 \<noteq> None" by blast
  from run_ok_Cons[OF run1] obtain x2 where a2: "apply_op example_env ?R x1 = Ok x2"
    and run2: "run_ok example_env [?U1, ?U2, ?F] x2 \<noteq> None" by blast
  from run_ok_Cons[OF run2] obtain x3 where a3: "apply_op example_env ?U1 x2 = Ok x3"
    and run3: "run_ok example_env [?U2, ?F] x3 \<noteq> None" by blast
  from run_ok_Cons[OF run3] obtain x4 where a4: "apply_op example_env ?U2 x3 = Ok x4"
    and run4: "run_ok example_env [?F] x4 \<noteq> None" by blast
  from run_ok_Cons[OF run4] obtain x5 where a5: "apply_op example_env ?F x4 = Ok x5" by blast
  obtain sb1 c1 s1 where x1: "x1 = (sb1, c1, s1)" by (cases x1)
  obtain sb2 c2 s2 where x2: "x2 = (sb2, c2, s2)" by (cases x2)
  obtain sb3 c3 s3 where x3: "x3 = (sb3, c3, s3)" by (cases x3)
  obtain sb4 c4 s4 where x4: "x4 = (sb4, c4, s4)" by (cases x4)
  obtain sb5 c5 s5 where x5: "x5 = (sb5, c5, s5)" by (cases x5)
  from a1 x1 have r1: "btrfs_add_reserved_bytes example_env (100 * MiB) (100 * MiB) False False (?g, ?s) = Ok (c1, s1)"
    by (auto dest: lift_bg_state_Ok)
  from a2 x1 x2 have r2: "btrfs_add_reserved_bytes example_env (100 * MiB) (100 * MiB) False False (c1, s1) = Ok (c2, s2)"
    by (auto dest: lift_bg_state_Ok)
  from a3 x2 x3 have u1: "btrfs_update_block_group example_env 0 (100 * MiB) True (sb2, c2, s2) = Ok (sb3, c3, s3)"
    by simp
  from a4 x3 x4 have u2: "btrfs_update_block_group example_env (100 * MiB) (100 * MiB) True (sb3, c3, s3) = Ok (sb4, c4, s4)"
    by simp
  from a5 x4 x5 have fr: "btrfs_update_block_group example_env 0 (50 * MiB) False (sb4, c4, s4) = Ok (sb5, c5, s5)"
    by simp
  note concl = reserve_commit_free_moves[OF h1 h2 r1 r2 u1 u2 fr]
  have p4: "pinned c4 = 0"
    using h3 by (simp add: add_reserved_effect[OF r1] add_reserved_effect[OF r2]
      update_alloc_effect[OF u1] update_alloc_effect[OF u2])
  have e2: "run_ok example_env (take 2 commit_scenario_ops) (0, ?g, ?s) = Some x2"
    using a1 a2 by (simp add: commit_scenario_ops_def)
  have e4: "run_ok example_env (take 4 commit_scenario_ops) (0, ?g, ?s) = Some x4"
    using a1 a2 a3 a4 by (simp add: commit_scenario_ops_def)
  have e5: "run_ok example_env commit_scenario_ops (0, ?g, ?s) = Some x5"
    using a1 a2 a3 a4 a5 by (simp add: commit_scenario_ops_def)
  from concl p4 have "reserved c2 = 200 * MiB" "used c4 = 200 * MiB" "reserved c4 = 0" "pinned c5 = 50 * MiB"
    by simp_all
  with h1 h2 e2 e4 e5 x2 x4 x5 show ?thesis by simp
qed

section \<open>Admission to read-only\<close>

text \<open>
  Claim C5, as amended.  On a group without active swap extents a forced
  \<^verbatim>\<open>inc_block_group_ro\<close> succeeds and raises the read-only counter by one (to 1 when it
  was 0); with swap extents active it fails with \<^verbatim>\<open>-ETXTBSY\<close> whether forced or
  not.  Unforced, on a data class and a group that is neither read-only nor swapping, it
  fails with \<^verbatim>\<open>-ENOSPC\<close>, leaving every counter as it was, exactly when the class-wide
  used bytes (soft reservations included) plus the free bytes of the group exceed the
  total bytes of the class.
\<close>

theorem set_read_only_admission:
  "(swap_extents cache = 0 \<longrightarrow>
      (\<exists>cache' sinfo'. inc_block_group_ro env True (cache, sinfo) = Ok (cache', sinfo') \<and>
         ro cache' = ro cache + 1)) \<and>
   (swap_extents cache \<noteq> 0 \<longrightarrow>
      inc_block_group_ro env force (cache, sinfo) = Err ETXTBSY (cache, sinfo)) \<and>
   (swap_extents cache = 0 \<and> ro cache = 0 \<and>
    btrfs_space_info.flags sinfo AND BTRFS_BLOCK_GROUP_DATA \<noteq> 0 \<longrightarrow>
      (inc_block_group_ro env False (cache, sinfo) = Err ENOSPC (cache, sinfo))
        = (\<not> btrfs_space_info_used sinfo True + bg_free_bytes cache \<le> total_bytes sinfo))"
  using inc_ro_forced[of cache env sinfo] inc_ro_busy[of cache env force sinfo]
    inc_ro_data_enospc[of cache sinfo env]
  by blast

theorem set_read_only_admission_witness:
  "map_option (ro \<circ> fst)
     (state_after (inc_block_group_ro example_env True
        ((make_group 0 (1000 * MiB) BTRFS_BLOCK_GROUP_DATA)\<lparr>reserved := 900 * MiB\<rparr>,
         (data_space_info (1000 * MiB))
           \<lparr>bytes_reserved := 900 * MiB, bytes_may_use := 200 * MiB\<rparr>))) = Some 1 \<and>
   inc_block_group_ro example_env True
     ((make_group 0 (1000 * MiB) BTRFS_BLOCK_GROUP_DATA)\<lparr>swap_extents := 1\<rparr>,
      data_space_info (1000 * MiB))
   = Err ETXTBSY
       ((make_group 0 (1000 * MiB) BTRFS_BLOCK_GROUP_DATA)\<lparr>swap_extents := 1\<rparr>,
        data_space_info (1000 * MiB)) \<and>
   inc_block_group_ro example_env False
     ((make_group 0 (1000 * MiB) BTRFS_BLOCK_GROUP_DATA)\<lparr>reserved := 900 * MiB\<rparr>,
      (data_space_info (1000 * MiB))\<lparr>bytes_reserved := 900 * MiB, bytes_may_use := 200 * MiB\<rparr>)
   = Err ENOSPC
       ((make_group 0 (1000 * MiB) BTRFS_BLOCK_GROUP_DATA)\<lparr>reserved := 900 * MiB\<rparr>,
        (data_space_info (1000 * MiB))\<lparr>bytes_reserved := 900 * MiB, bytes_may_use := 200 * MiB\<rparr>)"
proof -
  let ?g = "(make_group 0 (1000 * MiB) BTRFS_BLOCK_GROUP_DATA)\<lparr>reserved := 900 * MiB\<rparr>"
  let ?s = "(data_space_info (1000 * MiB))\<lparr>bytes_reserved := 900 * MiB, bytes_may_use := 200 * MiB\<rparr>"
  let ?b = "(make_group 0 (1000 * MiB) BTRFS_BLOCK_GROUP_DATA)\<lparr>swap_extents := 1\<rparr>"
  have h1: "swap_extents ?g = 0" and h1': "ro ?g = 0"
    by (simp_all add: make_group_def btrfs_create_block_group_cache_def)
  have h2: "swap_extents ?b \<noteq> 0" by simp
  have h3: "btrfs_space_info.flags ?s AND BTRFS_BLOCK_GROUP_DATA \<noteq> 0"
    by (simp add: data_space_info_def BTRFS_BLOCK_GROUP_DATA_def)
  have h4: "\<not> btrfs_space_info_used ?s True + bg_free_bytes ?g \<le> total_bytes ?s"
    by (simp add: eval_defs)
  from set_read_only_admission[where cache = ?g and env = example_env and sinfo = ?s and force = True] h1
  obtain cache' sinfo' where "inc_block_group_ro example_env True (?g, ?s) = Ok (cache', sinfo')"
    "ro cache' = ro ?g + 1" by blast
  with h1' have c1: "map_option (ro \<circ> fst) (state_after (inc_block_group_ro example_env True (?g, ?s))) = Some 1"
    by simp
  from set_read_only_admission[where cache = ?b and env = example_env
      and sinfo = "data_space_info (1000 * MiB)" and force = True] h2
  have c2: "inc_block_group_ro example_env True (?b, data_space_info (1000 * MiB))
      = Err ETXTBSY (?b, data_space_info (1000 * MiB))" by blast
  from set_read_only_admission[where cache = ?g and env = example_env and sinfo = ?s and force = False]
    h1 h1' h3 h4
  have c3: "inc_block_group_ro example_env False (?g, ?s) = Err ENOSPC (?g, ?s)" by blast
  from c1 c2 c3 show ?thesis by blast
qed

text \<open>
  The claim as stated fails twice: a forced call on a group with swap extents is refused,
  and the unforced call on a 1000 MiB class with 900 MiB reserved and nothing else
  accounted is admitted, since 900 MiB used plus 100 MiB free does not exceed the total.
\<close>

theorem set_read_only_force_counterexample:
  "inc_block_group_ro example_env True
     ((make_group 0 (1000 * MiB) BTRFS_BLOCK_GROUP_DATA)\<lparr>swap_extents := 1\<rparr>,
      data_space_info (1000 * MiB))
   = Err ETXTBSY
       ((make_group 0 (1000 * MiB) BTRFS_BLOCK_GROUP_DATA)\<lparr>swap_extents := 1\<rparr>,
        data_space_info (1000 * MiB)) \<and>
   inc_block_group_ro example_env False
     ((make_group 0 (1000 * MiB) BTRFS_BLOCK_GROUP_DATA)\<lparr>reserved := 900 * MiB\<rparr>,
      (data_space_info (1000 * MiB))\<lparr>bytes_reserved := 900 * MiB\<rparr>)
   = Ok ((make_group 0 (1000 * MiB) BTRFS_BLOCK_GROUP_DATA)
           \<lparr>reserved := 900 * MiB, ro := 1, on_ro_list := True\<rparr>,
         (data_space_info (1000 * MiB))
           \<lparr>bytes_reserved := 900 * MiB, bytes_readonly := 100 * MiB\<rparr>)"
  by (simp add: eval_defs)

section \<open>Setting and clearing read-only twice\<close>

text \<open>
  Claim C6.  Starting from a read-write group, the first successful set moves the free
  bytes of the group (and, on a zoned filesystem, its zone-unusable bytes) into
  \<open>bytes_readonly\<close>; the second set and the first clear change the counter only; the
  second clear brings the counter back to zero and \<open>bytes_readonly\<close> back to its
  original value.
\<close>

theorem set_twice_clear_twice:
  assumes ro0: "ro c0 = 0"
    and set1: "inc_block_group_ro env force1 (c0, s0) = Ok (c1, s1)"
  shows "\<exists>c4 s4.
      inc_block_group_ro env force2 (c1, s1) = Ok (c1\<lparr>ro := 2\<rparr>, s1) \<and>
      btrfs_dec_block_group_ro env (c1\<lparr>ro := 2\<rparr>, s1) = Ok (c1, s1) \<and>
      btrfs_dec_block_group_ro env (c1, s1) = Ok (c4, s4) \<and>
      ro c1 = 1 \<and>
      bytes_readonly s1 = bytes_readonly s0 + bg_free_bytes c0 +
                            (if is_zoned env then zone_unusable c0 else 0) \<and>
      ro c4 = 0 \<and>
      bytes_readonly s4 = bytes_readonly s0 \<and>
      (\<not> is_zoned env \<longrightarrow>
         bytes_readonly s4 = bytes_readonly s1 - bg_free_bytes c0 \<and>
         s4 = s0 \<and> c4 = c0\<lparr>on_ro_list := False\<rparr>)"
proof -
  from set1 have sw: "swap_extents c0 = 0" by (rule inc_ro_ok_effect)
  from set1 ro0 sw have c1: "c1 = (if is_zoned env then c0\<lparr>zone_unusable := 0\<rparr> else c0)\<lparr>ro := 1, on_ro_list := True\<rparr>"
    and s1: "s1 = (if is_zoned env
                   then s0\<lparr>bytes_readonly := bytes_readonly s0 + bg_free_bytes c0 + zone_unusable c0,
                           bytes_zone_unusable := bytes_zone_unusable s0 - zone_unusable c0\<rparr>
                   else s0\<lparr>bytes_readonly := bytes_readonly s0 + bg_free_bytes c0\<rparr>)"
    by (auto simp: inc_block_group_ro_def Let_def bg_free_bytes_def split: if_splits)
  have r1: "ro c1 = 1" and sw1: "swap_extents c1 = 0" using c1 sw by auto
  have a: "inc_block_group_ro env force2 (c1, s1) = Ok (c1\<lparr>ro := 2\<rparr>, s1)"
    using r1 sw1 by (simp add: inc_block_group_ro_def)
  have "c1\<lparr>ro := 1\<rparr> = c1" using r1 by (rule ro_update_same)
  then have b: "btrfs_dec_block_group_ro env (c1\<lparr>ro := 2\<rparr>, s1) = Ok (c1, s1)"
    using r1 by (simp add: btrfs_dec_block_group_ro_def Let_def)
  obtain c4 s4 where d: "btrfs_dec_block_group_ro env (c1, s1) = Ok (c4, s4)"
    using r1 by (cases "btrfs_dec_block_group_ro env (c1, s1)")
      (auto simp: btrfs_dec_block_group_ro_def Let_def split: if_splits)
  have e: "bytes_readonly s1 = bytes_readonly s0 + bg_free_bytes c0 +
                            (if is_zoned env then zone_unusable c0 else 0)"
    using s1 by simp
  have f: "ro c4 = 0" using dec_ro_effect(2)[OF d] r1 by simp
  have g: "bytes_readonly s4 = bytes_readonly s0"
    using d r1 c1 s1
    by (auto simp: btrfs_dec_block_group_ro_def Let_def bg_free_bytes_def split: if_splits)
  have h: "bytes_readonly s4 = bytes_readonly s1 - bg_free_bytes c0 \<and> s4 = s0 \<and> c4 = c0\<lparr>on_ro_list := False\<rparr>"
    if nz: "\<not> is_zoned env"
  proof -
    from nz c1 have c1': "c1 = c0\<lparr>ro := 1, on_ro_list := True\<rparr>" by simp
    from nz s1 have s1': "s1 = s0\<lparr>bytes_readonly := bytes_readonly s0 + bg_free_bytes c0\<rparr>" by simp
    from d nz have "c4 = c1\<lparr>ro := 0, on_ro_list := False\<rparr>"
      and "s4 = s1\<lparr>bytes_readonly := bytes_readonly s1 - bg_free_bytes c1\<rparr>"
      using r1 by (auto simp: btrfs_dec_block_group_ro_def Let_def bg_free_bytes_def split: if_splits)
    moreover have "bg_free_bytes c1 = bg_free_bytes c0" using c1' by (simp add: bg_free_bytes_def)
    moreover have "c0\<lparr>ro := 0\<rparr> = c0" using ro0 by (rule ro_update_same)
    ultimately show ?thesis using c1' s1' by simp
  qed
  from a b d r1 e f g h show ?thesis by blast
qed

theorem set_twice_clear_twice_witness:
  "ro ((make_group 0 (1000 * MiB) BTRFS_BLOCK_GROUP_DATA)\<lparr>used := 300 * MiB\<rparr>) = 0 \<and>
   map_option (bytes_readonly \<circ> snd \<circ> snd)
     (run_ok example_env [Set_Ro False]
        (0, (make_group 0 (1000 * MiB) BTRFS_BLOCK_GROUP_DATA)\<lparr>used := 300 * MiB\<rparr>,
         (data_space_info (1000 * MiB))\<lparr>bytes_used := 300 * MiB\<rparr>)) = Some (700 * MiB) \<and>
   map_option (bytes_readonly \<circ> snd \<circ> snd)
     (run_ok example_env [Set_Ro False, Set_Ro False, Clear_Ro, Clear_Ro]
        (0, (make_group 0 (1000 * MiB) BTRFS_BLOCK_GROUP_DATA)\<lparr>used := 300 * MiB\<rparr>,
         (data_space_info (1000 * MiB))\<lparr>bytes_used := 300 * MiB\<rparr>)) = Some 0 \<and>
   ro zoned_group = 0 \<and>
   map_option (bytes_readonly \<circ> snd \<circ> snd)
     (run_ok zoned_env [Set_Ro True]
        (0, zoned_group,
         (data_space_info (1024 * MiB))
           \<lparr>bytes_used := 100 * MiB, bytes_zone_unusable := 20 * MiB\<rparr>)) = Some (924 * MiB) \<and>
   map_option (bytes_readonly \<circ> snd \<circ> snd)
     (run_ok zoned_env [Set_Ro True, Set_Ro True, Clear_Ro, Clear_Ro]
        (0, zoned_group,
         (data_space_info (1024 * MiB))
           \<lparr>bytes_used := 100 * MiB, bytes_zone_unusable := 20 * MiB\<rparr>)) = Some 0"
proof -
  let ?g = "(make_group 0 (1000 * MiB) BTRFS_BLOCK_GROUP_DATA)\<lparr>used := 300 * MiB\<rparr>"
  let ?s = "(data_space_info (1000 * MiB))\<lparr>bytes_used := 300 * MiB\<rparr>"
  let ?zs = "(data_space_info (1024 * MiB))
           \<lparr>bytes_used := 100 * MiB, bytes_zone_unusable := 20 * MiB\<rparr>"
  have h1: "ro ?g = 0" by (simp add: make_group_def btrfs_create_block_group_cache_def)
  have "\<exists>c1 s1. inc_block_group_ro example_env False (?g, ?s) = Ok (c1, s1)"
    by (simp add: eval_defs)
  then obtain c1 s1 where h2: "inc_block_group_ro example_env False (?g, ?s) = Ok (c1, s1)"
    by blast
  from set_twice_clear_twice[OF h1 h2, where ?force2.0 = False]
  obtain c4 s4 where
    a: "inc_block_group_ro example_env False (c1, s1) = Ok (c1\<lparr>ro := 2\<rparr>, s1)"
    and b: "btrfs_dec_block_group_ro example_env (c1\<lparr>ro := 2\<rparr>, s1) = Ok (c1, s1)"
    and d: "btrfs_dec_block_group_ro example_env (c1, s1) = Ok (c4, s4)"
    and e: "bytes_readonly s1 = bytes_readonly ?s + bg_free_bytes ?g +
                            (if is_zoned example_env then zone_unusable ?g else 0)"
    and g: "bytes_readonly s4 = bytes_readonly ?s"
    by blast
  have e': "bytes_readonly s1 = 700 * MiB" using e by (simp add: eval_defs)
  have g': "bytes_readonly s4 = 0" using g by (simp add: data_space_info_def)
  have r1: "run_ok example_env [Set_Ro False] (0, ?g, ?s) = Some (0, c1, s1)"
    using h2 by (simp add: lift_bg_state_def)
  have r4: "run_ok example_env [Set_Ro False, Set_Ro False, Clear_Ro, Clear_Ro] (0, ?g, ?s)
      = Some (0, c4, s4)"
    using h2 a b d by (simp add: lift_bg_state_def)
  have z1: "ro zoned_group = 0"
    by (simp add: zoned_group_def make_group_def btrfs_create_block_group_cache_def)
  have "\<exists>c1 s1. inc_block_group_ro zoned_env True (zoned_group, ?zs) = Ok (c1, s1)"
    by (simp add: eval_defs)
  then obtain zc1 zs1 where z2: "inc_block_group_ro zoned_env True (zoned_group, ?zs) = Ok (zc1, zs1)"
    by blast
  from set_twice_clear_twice[OF z1 z2, where ?force2.0 = True]
  obtain zc4 zs4 where
    za: "inc_block_group_ro zoned_env True (zc1, zs1) = Ok (zc1\<lparr>ro := 2\<rparr>, zs1)"
    and zb: "btrfs_dec_block_group_ro zoned_env (zc1\<lparr>ro := 2\<rparr>, zs1) = Ok (zc1, zs1)"
    and zd: "btrfs_dec_block_group_ro zoned_env (zc1, zs1) = Ok (zc4, zs4)"
    and ze: "bytes_readonly zs1 = bytes_readonly ?zs + bg_free_bytes zoned_group +
                            (if is_zoned zoned_env then zone_unusable zoned_group else 0)"
    and zg: "bytes_readonly zs4 = bytes_readonly ?zs"
    by blast
  have ze': "bytes_readonly zs1 = 924 * MiB" using ze by (simp add: eval_defs)
  have zg': "bytes_readonly zs4 = 0" using zg by (simp add: data_space_info_def)
  have q1: "run_ok zoned_env [Set_Ro True] (0, zoned_group, ?zs) = Some (0, zc1, zs1)"
    using z2 by (simp add: lift_bg_state_def)
  have q4: "run_ok zoned_env [Set_Ro True, Set_Ro True, Clear_Ro, Clear_Ro] (0, zoned_group, ?zs)
      = Some (0, zc4, zs4)"
    using z2 za zb zd by (simp add: lift_bg_state_def)
  from h1 r1 r4 e' g' z1 q1 q4 ze' zg' show ?thesis by simp
qed

section \<open>Read-only and swap extents exclude each other\<close>

text \<open>
  Claim C10.  Enabling swap extents on a read-only group returns \<open>false\<close> without
  counting, setting a group with swap extents read-only fails with \<^verbatim>\<open>-ETXTBSY\<close>,
  dropping swap extents asserts that the group is not read-only, and no run of operations
  reaches a state in which both counters are nonzero.
\<close>

theorem ro_and_swap_extents_exclusive:
  "(ro bg \<noteq> 0 \<longrightarrow> btrfs_inc_block_group_swap_extents bg = (False, bg)) \<and>
   (swap_extents bg \<noteq> 0 \<longrightarrow>
      inc_block_group_ro env force (bg, sinfo) = Err ETXTBSY (bg, sinfo)) \<and>
   (ro bg \<noteq> 0 \<longrightarrow> btrfs_dec_block_group_swap_extents bg amount = Bug) \<and>
   (ro_swap_exclusive bg \<longrightarrow>
      (\<forall>s'. run_ops env ops (sb, bg, sinfo) = Some s' \<longrightarrow> ro_swap_exclusive (fst (snd s'))))"
proof (intro conjI impI allI)
  show "btrfs_inc_block_group_swap_extents bg = (False, bg)" if "ro bg \<noteq> 0"
    using that by (simp add: btrfs_inc_block_group_swap_extents_def)
  show "inc_block_group_ro env force (bg, sinfo) = Err ETXTBSY (bg, sinfo)" if "swap_extents bg \<noteq> 0"
    using that by (rule inc_ro_busy)
  show "btrfs_dec_block_group_swap_extents bg amount = Bug" if "ro bg \<noteq> 0"
    using that by (simp add: btrfs_dec_block_group_swap_extents_def)
  show "ro_swap_exclusive (fst (snd s'))"
    if "ro_swap_exclusive bg" "run_ops env ops (sb, bg, sinfo) = Some s'" for s'
    using run_ops_ro_swap[of "(sb, bg, sinfo)" env ops s'] that by simp
qed

theorem ro_and_swap_extents_exclusive_witness:
  "btrfs_inc_block_group_swap_extents ((make_group 0 MiB BTRFS_BLOCK_GROUP_DATA)\<lparr>ro := 1\<rparr>)
     = (False, (make_group 0 MiB BTRFS_BLOCK_GROUP_DATA)\<lparr>ro := 1\<rparr>) \<and>
   inc_block_group_ro example_env True
       ((make_group 0 MiB BTRFS_BLOCK_GROUP_DATA)\<lparr>swap_extents := 1\<rparr>, data_space_info MiB)
     = Err ETXTBSY
         ((make_group 0 MiB BTRFS_BLOCK_GROUP_DATA)\<lparr>swap_extents := 1\<rparr>, data_space_info MiB) \<and>
   btrfs_dec_block_group_swap_extents ((make_group 0 MiB BTRFS_BLOCK_GROUP_DATA)\<lparr>ro := 1\<rparr>) 1 = Bug \<and>
   ro_swap_exclusive (make_group 0 MiB BTRFS_BLOCK_GROUP_DATA) \<and>
   map_option (ro_swap_exclusive \<circ> fst \<circ> snd)
     (run_ops example_env swap_scenario_ops
        (0, make_group 0 MiB BTRFS_BLOCK_GROUP_DATA, data_space_info MiB)) = Some True"
proof -
  let ?g = "make_group 0 MiB BTRFS_BLOCK_GROUP_DATA"
  let ?s = "data_space_info MiB"
  have h1: "ro (?g\<lparr>ro := 1\<rparr>) \<noteq> 0" by simp
  have h2: "swap_extents (?g\<lparr>swap_extents := 1\<rparr>) \<noteq> 0" by simp
  have h3: "ro_swap_exclusive ?g"
    by (simp add: ro_swap_exclusive_def make_group_def btrfs_create_block_group_cache_def)
  have run: "run_ops example_env swap_scenario_ops (0, ?g, ?s) \<noteq> None"
    by (simp add: swap_scenario_ops_def eval_defs)
  then obtain s' where s': "run_ops example_env swap_scenario_ops (0, ?g, ?s) = Some s'" by blast
  from ro_and_swap_extents_exclusive[where bg = "?g\<lparr>ro := 1\<rparr>" and env = example_env
      and force = True and sinfo = ?s and amount = 1 and ops = "[]" and sb = 0] h1
  have c1: "btrfs_inc_block_group_swap_extents (?g\<lparr>ro := 1\<rparr>) = (False, ?g\<lparr>ro := 1\<rparr>)"
    and c3: "btrfs_dec_block_group_swap_extents (?g\<lparr>ro := 1\<rparr>) 1 = Bug" by blast+
  from ro_and_swap_extents_exclusive[where bg = "?g\<lparr>swap_extents := 1\<rparr>" and env = example_env
      and force = True and sinfo = ?s and amount = 1 and ops = "[]" and sb = 0] h2
  have c2: "inc_block_group_ro example_env True (?g\<lparr>swap_extents := 1\<rparr>, ?s)
     = Err ETXTBSY (?g\<lparr>swap_extents := 1\<rparr>, ?s)" by blast
  from ro_and_swap_extents_exclusive[where bg = ?g and env = example_env
      and force = True and sinfo = ?s and amount = 1 and ops = swap_scenario_ops and sb = 0] h3 s'
  have "ro_swap_exclusive (fst (snd s'))" by blast
  with s' have c4: "map_option (ro_swap_exclusive \<circ> fst \<circ> snd)
     (run_ops example_env swap_scenario_ops (0, ?g, ?s)) = Some True" by simp
  from c1 c2 c3 h3 c4 show ?thesis by blast
qed

section \<open>The profile reducer\<close>

lemma and_pow2_bit: "(x AND 2 ^ n \<noteq> 0) = bit (x :: u64) n"
  by (simp add: and_exp_eq_0_iff_not_bit)

lemma bit_fold_or:
  "bit (fold (\<lambda>attr allowed. if (nd::u64) \<ge> devs_min attr then allowed OR bg_flag attr else allowed) tbl acc) n
   \<longleftrightarrow> bit (acc::u64) n \<or> (\<exists>a\<in>set tbl. devs_min a \<le> nd \<and> bit (bg_flag a) n)"
  by (induction tbl arbitrary: acc) (auto simp: bit_or_iff)

lemma pick_bit:
  "((raid_levels_possible tbl nd AND fl) AND 2 ^ n = 0)
   = (fl AND 2 ^ n = 0 \<or> \<not> scheme_feasible tbl nd (2 ^ n))"
  by (auto simp: and_exp_eq_0_iff_not_bit and_pow2_bit raid_levels_possible_def bit_fold_or
      bit_and_iff scheme_feasible_def list_ex_iff)

lemma none_allowed:
  assumes "raid_array_well_formed tbl"
  shows "raid_levels_possible tbl nd AND NOT BTRFS_BLOCK_GROUP_PROFILE_MASK = 0"
proof (rule bit_eqI)
  fix n
  have "\<And>a. a \<in> set tbl \<Longrightarrow> bit (bg_flag a) n \<Longrightarrow> bit BTRFS_BLOCK_GROUP_PROFILE_MASK n"
  proof -
    fix a assume "a \<in> set tbl" "bit (bg_flag a) n"
    with assms have "bg_flag a AND NOT BTRFS_BLOCK_GROUP_PROFILE_MASK = 0"
      by (simp add: raid_array_well_formed_def list_all_iff)
    then have "\<not> bit (bg_flag a AND NOT BTRFS_BLOCK_GROUP_PROFILE_MASK) n" by simp
    with \<open>bit (bg_flag a) n\<close> show "bit BTRFS_BLOCK_GROUP_PROFILE_MASK n"
      using bit_imp_le_length[of "bg_flag a" n] by (simp add: bit_and_iff bit_not_iff)
  qed
  then show "bit (raid_levels_possible tbl nd AND NOT BTRFS_BLOCK_GROUP_PROFILE_MASK) n = bit (0::u64) n"
    by (auto simp: raid_levels_possible_def bit_fold_or bit_and_iff bit_not_iff)
qed


lemmas profile_bit_defs =
  BTRFS_BLOCK_GROUP_RAID0_def BTRFS_BLOCK_GROUP_RAID1_def BTRFS_BLOCK_GROUP_DUP_def
  BTRFS_BLOCK_GROUP_RAID10_def BTRFS_BLOCK_GROUP_RAID5_def BTRFS_BLOCK_GROUP_RAID6_def
  BTRFS_BLOCK_GROUP_RAID1C3_def BTRFS_BLOCK_GROUP_RAID1C4_def

lemma pick_named:
  "((raid_levels_possible tbl nd AND fl) AND BTRFS_BLOCK_GROUP_RAID1C4 = 0)
     = (fl AND BTRFS_BLOCK_GROUP_RAID1C4 = 0 \<or> \<not> scheme_feasible tbl nd BTRFS_BLOCK_GROUP_RAID1C4)"
  "((raid_levels_possible tbl nd AND fl) AND BTRFS_BLOCK_GROUP_RAID6 = 0)
     = (fl AND BTRFS_BLOCK_GROUP_RAID6 = 0 \<or> \<not> scheme_feasible tbl nd BTRFS_BLOCK_GROUP_RAID6)"
  "((raid_levels_possible tbl nd AND fl) AND BTRFS_BLOCK_GROUP_RAID1C3 = 0)
     = (fl AND BTRFS_BLOCK_GROUP_RAID1C3 = 0 \<or> \<not> scheme_feasible tbl nd BTRFS_BLOCK_GROUP_RAID1C3)"
  "((raid_levels_possible tbl nd AND fl) AND BTRFS_BLOCK_GROUP_RAID5 = 0)
     = (fl AND BTRFS_BLOCK_GROUP_RAID5 = 0 \<or> \<not> scheme_feasible tbl nd BTRFS_BLOCK_GROUP_RAID5)"
  "((raid_levels_possible tbl nd AND fl) AND BTRFS_BLOCK_GROUP_RAID10 = 0)
     = (fl AND BTRFS_BLOCK_GROUP_RAID10 = 0 \<or> \<not> scheme_feasible tbl nd BTRFS_BLOCK_GROUP_RAID10)"
  "((raid_levels_possible tbl nd AND fl) AND BTRFS_BLOCK_GROUP_RAID1 = 0)
     = (fl AND BTRFS_BLOCK_GROUP_RAID1 = 0 \<or> \<not> scheme_feasible tbl nd BTRFS_BLOCK_GROUP_RAID1)"
  "((raid_levels_possible tbl nd AND fl) AND BTRFS_BLOCK_GROUP_DUP = 0)
     = (fl AND BTRFS_BLOCK_GROUP_DUP = 0 \<or> \<not> scheme_feasible tbl nd BTRFS_BLOCK_GROUP_DUP)"
  "((raid_levels_possible tbl nd AND fl) AND BTRFS_BLOCK_GROUP_RAID0 = 0)
     = (fl AND BTRFS_BLOCK_GROUP_RAID0 = 0 \<or> \<not> scheme_feasible tbl nd BTRFS_BLOCK_GROUP_RAID0)"
  unfolding profile_bit_defs by (rule pick_bit)+

lemma allowed_zero:
  assumes wf: "raid_array_well_formed tbl"
    and none: "(raid_levels_possible tbl nd AND fl) AND BTRFS_BLOCK_GROUP_PROFILE_MASK = 0"
  shows "raid_levels_possible tbl nd AND fl = 0"
proof (rule bit_eqI)
  fix n
  have "\<not> bit (raid_levels_possible tbl nd AND fl) n"
  proof
    assume b: "bit (raid_levels_possible tbl nd AND fl) n"
    then have "bit (raid_levels_possible tbl nd) n" by (simp add: bit_and_iff)
    moreover have "\<not> bit (raid_levels_possible tbl nd AND NOT BTRFS_BLOCK_GROUP_PROFILE_MASK) n"
      using none_allowed[OF wf, of nd] by simp
    ultimately have "bit BTRFS_BLOCK_GROUP_PROFILE_MASK n"
      using bit_imp_le_length[of "raid_levels_possible tbl nd" n]
      by (simp add: bit_and_iff bit_not_iff)
    with b have "bit ((raid_levels_possible tbl nd AND fl) AND BTRFS_BLOCK_GROUP_PROFILE_MASK) n"
      by (simp add: bit_and_iff)
    with none show False by simp
  qed
  then show "bit (raid_levels_possible tbl nd AND fl) n = bit (0::u64) n" by simp
qed

lemma mask_and_zero:
  "(a :: u64) AND BTRFS_BLOCK_GROUP_PROFILE_MASK = 0 \<longleftrightarrow>
     a AND BTRFS_BLOCK_GROUP_RAID1C4 = 0 \<and> a AND BTRFS_BLOCK_GROUP_RAID6 = 0 \<and>
     a AND BTRFS_BLOCK_GROUP_RAID1C3 = 0 \<and> a AND BTRFS_BLOCK_GROUP_RAID5 = 0 \<and>
     a AND BTRFS_BLOCK_GROUP_RAID10 = 0 \<and> a AND BTRFS_BLOCK_GROUP_RAID1 = 0 \<and>
     a AND BTRFS_BLOCK_GROUP_DUP = 0 \<and> a AND BTRFS_BLOCK_GROUP_RAID0 = 0"
  unfolding BTRFS_BLOCK_GROUP_PROFILE_MASK_def
  by (auto simp: bit.conj_disj_distrib or_eq_0_iff)

lemma find_as_chain:
  "(case find P xs of None \<Rightarrow> d | Some s \<Rightarrow> s) = foldr (\<lambda>x r. if P x then x else r) xs d"
  by (induction xs) auto

lemma chain_default:
  "((\<forall>x\<in>set xs. \<not> P x) \<Longrightarrow> d = d') \<Longrightarrow>
   foldr (\<lambda>x r. if P x then x else r) xs d = foldr (\<lambda>x r. if P x then x else r) xs d'"
  by (induction xs) auto

lemma pick_in_order:
  assumes "s \<in> set profile_priority_order"
  shows "((raid_levels_possible tbl nd AND fl) AND s \<noteq> 0)
           = (fl AND s \<noteq> 0 \<and> scheme_feasible tbl nd s)"
proof -
  from assms consider "s = BTRFS_BLOCK_GROUP_RAID1C4" | "s = BTRFS_BLOCK_GROUP_RAID6"
    | "s = BTRFS_BLOCK_GROUP_RAID1C3" | "s = BTRFS_BLOCK_GROUP_RAID5"
    | "s = BTRFS_BLOCK_GROUP_RAID10" | "s = BTRFS_BLOCK_GROUP_RAID1"
    | "s = BTRFS_BLOCK_GROUP_DUP" | "s = BTRFS_BLOCK_GROUP_RAID0"
    unfolding profile_priority_order_def by (auto simp only: set_simps insert_iff empty_iff)
  then show ?thesis by cases (simp_all only: pick_named de_Morgan_disj not_not)
qed

lemma none_picked_zero:
  assumes wf: "raid_array_well_formed tbl"
    and none: "\<forall>s\<in>set profile_priority_order. \<not> (fl AND s \<noteq> 0 \<and> scheme_feasible tbl nd s)"
  shows "raid_levels_possible tbl nd AND fl = 0"
proof -
  from none have "\<forall>s\<in>set profile_priority_order. (raid_levels_possible tbl nd AND fl) AND s = 0"
    using pick_in_order[of _ tbl nd fl] by blast
  then have "(raid_levels_possible tbl nd AND fl) AND BTRFS_BLOCK_GROUP_PROFILE_MASK = 0"
    unfolding mask_and_zero profile_priority_order_def by (simp only: list.set ball_simps)
  with wf show ?thesis by (rule allowed_zero)
qed

lemma pick_chain:
  assumes "raid_array_well_formed tbl"
  shows "(let allowed0 = raid_levels_possible tbl nd AND fl in
               (if allowed0 AND BTRFS_BLOCK_GROUP_RAID1C4 \<noteq> 0 then BTRFS_BLOCK_GROUP_RAID1C4
                else if allowed0 AND BTRFS_BLOCK_GROUP_RAID6 \<noteq> 0 then BTRFS_BLOCK_GROUP_RAID6
                else if allowed0 AND BTRFS_BLOCK_GROUP_RAID1C3 \<noteq> 0 then BTRFS_BLOCK_GROUP_RAID1C3
                else if allowed0 AND BTRFS_BLOCK_GROUP_RAID5 \<noteq> 0 then BTRFS_BLOCK_GROUP_RAID5
                else if allowed0 AND BTRFS_BLOCK_GROUP_RAID10 \<noteq> 0 then BTRFS_BLOCK_GROUP_RAID10
                else if allowed0 AND BTRFS_BLOCK_GROUP_RAID1 \<noteq> 0 then BTRFS_BLOCK_GROUP_RAID1
                else if allowed0 AND BTRFS_BLOCK_GROUP_DUP \<noteq> 0 then BTRFS_BLOCK_GROUP_DUP
                else if allowed0 AND BTRFS_BLOCK_GROUP_RAID0 \<noteq> 0 then BTRFS_BLOCK_GROUP_RAID0
                else allowed0))
       = (case find (\<lambda>scheme. fl AND scheme \<noteq> 0 \<and> scheme_feasible tbl nd scheme)
                        profile_priority_order of
                None \<Rightarrow> 0
              | Some scheme \<Rightarrow> scheme)"
    (is "?lhs = ?rhs")
proof -
  let ?a = "raid_levels_possible tbl nd AND fl"
  let ?P = "\<lambda>s. fl AND s \<noteq> 0 \<and> scheme_feasible tbl nd s"
  have "?lhs = foldr (\<lambda>x r. if ?a AND x \<noteq> 0 then x else r) profile_priority_order ?a"
    unfolding profile_priority_order_def Let_def by (simp only: foldr.simps o_apply id_apply)
  also have "\<dots> = foldr (\<lambda>x r. if ?P x then x else r) profile_priority_order ?a"
    by (rule foldr_cong) (simp_all only: pick_in_order)
  also have "\<dots> = foldr (\<lambda>x r. if ?P x then x else r) profile_priority_order 0"
    by (rule chain_default) (rule none_picked_zero[OF assms])
  also have "\<dots> = ?rhs" by (simp only: find_as_chain)
  finally show ?thesis .
qed

lemma class_or_nonzero:
  "BTRFS_BLOCK_GROUP_DATA OR x \<noteq> 0" "BTRFS_BLOCK_GROUP_SYSTEM OR x \<noteq> 0"
  "BTRFS_BLOCK_GROUP_METADATA OR x \<noteq> 0"
  by (simp_all add: or_eq_0_iff BTRFS_BLOCK_GROUP_DATA_def BTRFS_BLOCK_GROUP_SYSTEM_def
      BTRFS_BLOCK_GROUP_METADATA_def)

lemma restripe_target_spec:
  "get_restripe_target balance_ctl fl =
     (case spec_conversion_target balance_ctl fl of None \<Rightarrow> 0 | Some tgt \<Rightarrow> tgt)"
  by (cases balance_ctl) (simp_all add: get_restripe_target_def spec_conversion_target_def)

lemma spec_target_nonzero: "spec_conversion_target balance_ctl fl = Some tgt \<Longrightarrow> tgt \<noteq> 0"
  by (cases balance_ctl)
     (auto simp: spec_conversion_target_def class_or_nonzero split: if_splits)

lemmas flag_defs =
  BTRFS_BLOCK_GROUP_DATA_def BTRFS_BLOCK_GROUP_SYSTEM_def BTRFS_BLOCK_GROUP_METADATA_def
  BTRFS_BLOCK_GROUP_RAID0_def BTRFS_BLOCK_GROUP_RAID1_def BTRFS_BLOCK_GROUP_DUP_def
  BTRFS_BLOCK_GROUP_RAID10_def BTRFS_BLOCK_GROUP_RAID5_def BTRFS_BLOCK_GROUP_RAID6_def
  BTRFS_BLOCK_GROUP_RAID1C3_def BTRFS_BLOCK_GROUP_RAID1C4_def BTRFS_AVAIL_ALLOC_BIT_SINGLE_def
  BTRFS_BALANCE_ARGS_CONVERT_def BTRFS_BLOCK_GROUP_PROFILE_MASK_def

text \<open>
  Claim C4.  For every flag set, \<^verbatim>\<open>btrfs_reduce_alloc_profile\<close> returns the conversion
  target of the running balance when one is set for the content class of the flags, and
  otherwise keeps the redundancy schemes of the flags whose minimum device count the
  writable devices satisfy and returns the first survivor in the order RAID1C4, RAID6,
  RAID1C3, RAID5, RAID10, RAID1, DUP, RAID0 (none of them when nothing survives), with the
  non-profile bits of the flags.  The table of RAID attributes is a parameter; its group
  flags are profile bits.
\<close>

theorem reduce_alloc_profile_refines_spec:
  assumes "raid_array_well_formed btrfs_raid_array"
  shows "btrfs_reduce_alloc_profile btrfs_raid_array num_devices balance_ctl fl
       = spec_profile_reducer btrfs_raid_array num_devices balance_ctl fl"
proof (cases "spec_conversion_target balance_ctl fl")
  case None
  then have "get_restripe_target balance_ctl fl = 0" by (simp add: restripe_target_spec)
  with None show ?thesis
    unfolding btrfs_reduce_alloc_profile_def spec_profile_reducer_def
    using pick_chain[OF assms, of num_devices fl]
    by (simp add: Let_def)
next
  case (Some tgt)
  then have "get_restripe_target balance_ctl fl = tgt" "tgt \<noteq> 0"
    by (simp_all add: restripe_target_spec spec_target_nonzero)
  with Some show ?thesis
    by (simp add: btrfs_reduce_alloc_profile_def spec_profile_reducer_def Let_def)
qed

theorem reduce_alloc_profile_refines_spec_witness:
  "raid_array_well_formed kernel_raid_array \<and>
   btrfs_reduce_alloc_profile kernel_raid_array 3 None
     (BTRFS_BLOCK_GROUP_DATA OR BTRFS_BLOCK_GROUP_RAID1C4 OR BTRFS_BLOCK_GROUP_RAID6 OR
      BTRFS_BLOCK_GROUP_RAID0)
     = BTRFS_BLOCK_GROUP_DATA OR BTRFS_BLOCK_GROUP_RAID6 \<and>
   btrfs_reduce_alloc_profile kernel_raid_array 3 (Some converting_to_raid1)
     (BTRFS_BLOCK_GROUP_DATA OR BTRFS_BLOCK_GROUP_RAID1C4 OR BTRFS_BLOCK_GROUP_RAID6 OR
      BTRFS_BLOCK_GROUP_RAID0)
     = BTRFS_BLOCK_GROUP_DATA OR BTRFS_BLOCK_GROUP_RAID1"
proof -
  let ?fl = "BTRFS_BLOCK_GROUP_DATA OR BTRFS_BLOCK_GROUP_RAID1C4 OR BTRFS_BLOCK_GROUP_RAID6 OR
      BTRFS_BLOCK_GROUP_RAID0"
  have h: "raid_array_well_formed kernel_raid_array"
    by (simp add: raid_array_well_formed_def kernel_raid_array_def flag_defs)
  have s1: "spec_profile_reducer kernel_raid_array 3 None ?fl
      = BTRFS_BLOCK_GROUP_DATA OR BTRFS_BLOCK_GROUP_RAID6"
    by (simp add: spec_profile_reducer_def spec_conversion_target_def kernel_raid_array_def
        profile_priority_order_def scheme_feasible_def extended_to_chunk_def flag_defs)
  have s2: "spec_profile_reducer kernel_raid_array 3 (Some converting_to_raid1) ?fl
      = BTRFS_BLOCK_GROUP_DATA OR BTRFS_BLOCK_GROUP_RAID1"
    by (simp add: spec_profile_reducer_def spec_conversion_target_def converting_to_raid1_def
        extended_to_chunk_def flag_defs)
  from reduce_alloc_profile_refines_spec[OF h, of 3 None ?fl]
    reduce_alloc_profile_refines_spec[OF h, of 3 "Some converting_to_raid1" ?fl] h s1 s2
  show ?thesis by simp
qed

section \<open>The registry\<close>

lemma starts_between_bounds:
  "starts_between lo hi t \<Longrightarrow> x \<in> set_bg_tree t \<Longrightarrow> lo < uint (start x) \<and> uint (start x) < hi"
  by (induction t arbitrary: lo hi) force+

lemma starts_between_mono:
  "starts_between lo hi t \<Longrightarrow> lo' \<le> lo \<Longrightarrow> hi \<le> hi' \<Longrightarrow> starts_between lo' hi' t"
  by (induction t arbitrary: lo hi lo' hi') auto

lemma link_None_iff:
  "starts_between lo hi t \<Longrightarrow>
   (rb_link_block_group g t = None) = (\<exists>c\<in>set_bg_tree t. start c = start g)"
proof (induction t arbitrary: lo hi)
  case Leaf
  then show ?case by simp
next
  case (Node l c r)
  from Node.prems have sl: "starts_between lo (uint (start c)) l"
    and sr: "starts_between (uint (start c)) hi r" by simp_all
  have lb: "\<And>x. x \<in> set_bg_tree l \<Longrightarrow> start x < start c"
    using starts_between_bounds[OF sl] by (simp add: word_less_def)
  have rb: "\<And>x. x \<in> set_bg_tree r \<Longrightarrow> start c < start x"
    using starts_between_bounds[OF sr] by (simp add: word_less_def)
  show ?case
  proof (cases "start g < start c")
    case True
    then have "\<not> (\<exists>x\<in>set_bg_tree r. start x = start g)" using rb by fastforce
    with True Node.IH(1)[OF sl] show ?thesis by auto
  next
    case False
    show ?thesis
    proof (cases "start g > start c")
      case True
      then have "\<not> (\<exists>x\<in>set_bg_tree l. start x = start g)" using lb by fastforce
      with True False Node.IH(2)[OF sr] show ?thesis by auto
    next
      case False
      with \<open>\<not> start g < start c\<close> have "start g = start c" by simp
      then show ?thesis by auto
    qed
  qed
qed

lemma link_Some_set:
  "rb_link_block_group g t = Some t' \<Longrightarrow> set_bg_tree t' = insert g (set_bg_tree t)"
  by (induction t arbitrary: t') (auto split: if_splits)

lemma link_Some_ordered:
  "rb_link_block_group g t = Some t' \<Longrightarrow> starts_between lo hi t \<Longrightarrow>
   lo < uint (start g) \<Longrightarrow> uint (start g) < hi \<Longrightarrow> starts_between lo hi t'"
  by (induction t arbitrary: t' lo hi) (auto split: if_splits simp: word_less_def)

lemma add_block_group_cache_spec:
  assumes "search_ordered t" "length_bg g \<noteq> 0"
  shows "(btrfs_add_block_group_cache t g = Err EEXIST t) = (\<exists>c\<in>set_bg_tree t. start c = start g)"
    and "(\<forall>c\<in>set_bg_tree t. start c \<noteq> start g) \<Longrightarrow>
         \<exists>t'. btrfs_add_block_group_cache t g = Ok t' \<and>
              set_bg_tree t' = insert g (set_bg_tree t) \<and> search_ordered t'"
proof -
  from assms(1) have sb: "starts_between (- 1) (2 ^ 64) t" by (simp add: search_ordered_def)
  show "(btrfs_add_block_group_cache t g = Err EEXIST t) = (\<exists>c\<in>set_bg_tree t. start c = start g)"
    using link_None_iff[OF sb, of g] assms(2)
    by (auto simp: btrfs_add_block_group_cache_def split: option.splits)
  assume "\<forall>c\<in>set_bg_tree t. start c \<noteq> start g"
  with link_None_iff[OF sb, of g] obtain t' where l: "rb_link_block_group g t = Some t'" by auto
  have "uint (start g) < 2 ^ 64" using uint_lt2p[of "start g"] by simp
  moreover have "- 1 < uint (start g)" using uint_ge_0[of "start g"] by linarith
  ultimately have "starts_between (- 1) (2 ^ 64) t'"
    using link_Some_ordered[OF l sb] by blast
  with l assms(2) link_Some_set[OF l]
  show "\<exists>t'. btrfs_add_block_group_cache t g = Ok t' \<and>
              set_bg_tree t' = insert g (set_bg_tree t) \<and> search_ordered t'"
    by (simp add: btrfs_add_block_group_cache_def search_ordered_def)
qed

lemma ranges_between_bounds:
  "ranges_between lo hi t \<Longrightarrow> x \<in> set_bg_tree t \<Longrightarrow>
   lo \<le> unat (start x) \<and> group_end x \<le> hi \<and> length_bg x \<noteq> 0"
proof (induction t arbitrary: lo hi)
  case Leaf
  then show ?case by simp
next
  case (Node l c r)
  have pos: "unat (start c) \<le> group_end c" by (simp add: group_end_def)
  from Node.prems(2) consider "x = c" | "x \<in> set_bg_tree l" | "x \<in> set_bg_tree r" by auto
  then show ?case
  proof cases
    case 1
    with Node.prems(1) show ?thesis by simp
  next
    case 2
    with Node.IH(1)[of lo "unat (start c)"] Node.prems(1) pos show ?thesis by fastforce
  next
    case 3
    with Node.IH(2)[of "group_end c" hi] Node.prems(1) pos show ?thesis by fastforce
  qed
qed

lemma last_byte_unat:
  assumes "length_bg c \<noteq> 0" "group_end c \<le> 2 ^ 64"
  shows "unat (start c + length_bg c - 1) = unat (start c) + unat (length_bg c) - 1"
proof -
  have l1: "unat (length_bg c - 1) = unat (length_bg c) - 1"
    using assms(1) by (simp add: unat_minus_one)
  have pos: "0 < unat (length_bg c)" using assms(1) by (simp add: unat_gt_0)
  have "unat (start c) + unat (length_bg c - 1) < 2 ^ 64"
    using assms(2) l1 pos by (simp add: group_end_def)
  then have "unat (start c + (length_bg c - 1)) = unat (start c) + unat (length_bg c - 1)"
    by (simp add: unat_add_lem[THEN iffD1])
  then have "unat (start c + (length_bg c - 1)) = unat (start c) + unat (length_bg c) - 1"
    using l1 pos by simp
  moreover have "unat (start c + length_bg c - 1) = unat (start c + (length_bg c - 1))"
    by (simp add: add_diff_eq)
  ultimately show ?thesis by (rule trans[rotated])
qed

lemma walk_contains:
  "ranges_between lo hi t \<Longrightarrow> hi \<le> 2 ^ 64 \<Longrightarrow> g \<in> set_bg_tree t \<Longrightarrow> group_contains g a \<Longrightarrow>
   block_group_cache_tree_walk t a True ret = Some g"
proof (induction t arbitrary: lo hi ret)
  case Leaf
  then show ?case by simp
next
  case (Node l c r)
  from Node.prems(1) have len: "length_bg c \<noteq> 0" and lo: "lo \<le> unat (start c)"
    and hi: "group_end c \<le> hi" and rl: "ranges_between lo (unat (start c)) l"
    and rr: "ranges_between (group_end c) hi r" by simp_all
  have pos: "unat (start c) \<le> group_end c" by (simp add: group_end_def)
  have e: "unat (start c + length_bg c - 1) = unat (start c) + unat (length_bg c) - 1"
    using len hi Node.prems(2) by (intro last_byte_unat) auto
  have lenpos: "0 < unat (length_bg c)" using len by (simp add: unat_gt_0)
  from Node.prems(3) consider "g = c" | "g \<in> set_bg_tree l" | "g \<in> set_bg_tree r" by auto
  then show ?case
  proof cases
    case 1
    with Node.prems(4) e lenpos show ?thesis
      by (auto simp: Let_def group_contains_def group_end_def word_less_nat_alt word_le_nat_alt)
  next
    case 2
    from ranges_between_bounds[OF rl 2] Node.prems(4)
    have "unat a < unat (start c)" by (simp add: group_contains_def)
    then have "a < start c" by (simp add: word_less_nat_alt)
    moreover have "block_group_cache_tree_walk l a True ret = Some g"
      using Node.IH(1)[OF rl _ 2 Node.prems(4)] hi pos Node.prems(2) by simp
    ultimately show ?thesis by (simp add: Let_def)
  next
    case 3
    from ranges_between_bounds[OF rr 3] Node.prems(4)
    have ge: "group_end c \<le> unat a" by (simp add: group_contains_def)
    with lenpos have "start c < a" "\<not> a \<le> start c + length_bg c - 1" "\<not> a < start c"
      using e by (simp_all add: word_less_nat_alt word_le_nat_alt group_end_def)
    moreover have "block_group_cache_tree_walk r a True ret = Some g"
      using Node.IH(2)[OF rr Node.prems(2) 3 Node.prems(4)] .
    ultimately show ?thesis by (simp add: Let_def)
  qed
qed

lemma walk_misses:
  "ranges_between lo hi t \<Longrightarrow> hi \<le> 2 ^ 64 \<Longrightarrow> \<forall>g\<in>set_bg_tree t. \<not> group_contains g a \<Longrightarrow>
   block_group_cache_tree_walk t a True ret = ret"
proof (induction t arbitrary: lo hi ret)
  case Leaf
  then show ?case by simp
next
  case (Node l c r)
  from Node.prems(1) have len: "length_bg c \<noteq> 0"
    and hi: "group_end c \<le> hi" and rl: "ranges_between lo (unat (start c)) l"
    and rr: "ranges_between (group_end c) hi r" by simp_all
  have pos: "unat (start c) \<le> group_end c" by (simp add: group_end_def)
  have e: "unat (start c + length_bg c - 1) = unat (start c) + unat (length_bg c) - 1"
    using len hi Node.prems(2) by (intro last_byte_unat) auto
  have lenpos: "0 < unat (length_bg c)" using len by (simp add: unat_gt_0)
  have nc: "\<not> group_contains c a" using Node.prems(3) by simp
  have il: "block_group_cache_tree_walk l a True ret = ret"
    using Node.IH(1)[OF rl] hi pos Node.prems(2,3) by simp
  have ir: "block_group_cache_tree_walk r a True ret = ret"
    using Node.IH(2)[OF rr Node.prems(2)] Node.prems(3) by simp
  show ?case using nc e lenpos il ir
    by (auto simp: Let_def group_contains_def group_end_def word_less_nat_alt word_le_nat_alt)
qed

lemma set_get_node:
  "set_bg_tree (get_node k t) =
     (\<lambda>c. if start c = k then btrfs_get_block_group c else c) ` set_bg_tree t"
  by (induction t) auto

lemma ranges_imp_starts:
  "ranges_between lo hi t \<Longrightarrow> starts_between (int lo - 1) (int hi) t"
proof (induction t arbitrary: lo hi)
  case Leaf
  then show ?case by simp
next
  case (Node l c r)
  from Node.prems have len: "length_bg c \<noteq> 0" and lo: "lo \<le> unat (start c)"
    and hi: "group_end c \<le> hi" and rl: "ranges_between lo (unat (start c)) l"
    and rr: "ranges_between (group_end c) hi r" by simp_all
  have lenpos: "0 < unat (length_bg c)" using len by (simp add: unat_gt_0)
  have u: "uint (start c) = int (unat (start c))" by simp
  have a: "int lo - 1 < uint (start c)" using lo u by linarith
  have "unat (start c) < hi" using hi lenpos by (simp add: group_end_def)
  then have b: "uint (start c) < int hi" using u by linarith
  have c: "starts_between (int lo - 1) (uint (start c)) l"
    using Node.IH(1)[OF rl] by simp
  have "unat (start c) + 1 \<le> group_end c" using lenpos by (simp add: group_end_def)
  then have le: "uint (start c) \<le> int (group_end c) - 1" using u by linarith
  have "starts_between (int (group_end c) - 1) (int hi) r" by (rule Node.IH(2)[OF rr])
  then have d: "starts_between (uint (start c)) (int hi) r"
    using le by (rule starts_between_mono) simp
  from a b c d show ?case by simp
qed

lemma ranges_disjoint_ordered: "ranges_disjoint t \<Longrightarrow> search_ordered t"
  using ranges_imp_starts[of 0 "2 ^ 64" t]
  by (simp add: ranges_disjoint_def search_ordered_def)

lemma lookup_contains:
  assumes "ranges_disjoint t" "c \<in> set_bg_tree t" "group_contains c a"
  shows "btrfs_lookup_block_group t a = (get_node (start c) t, Some (btrfs_get_block_group c))"
    and "btrfs_get_block_group c \<in> set_bg_tree (get_node (start c) t)"
proof -
  have "block_group_cache_tree_walk t a True None = Some c"
    using assms by (intro walk_contains[of 0 "2 ^ 64"]) (simp_all add: ranges_disjoint_def)
  then show "btrfs_lookup_block_group t a = (get_node (start c) t, Some (btrfs_get_block_group c))"
    by (simp add: btrfs_lookup_block_group_def block_group_cache_tree_search_def)
  show "btrfs_get_block_group c \<in> set_bg_tree (get_node (start c) t)"
    using assms(2) by (auto simp: set_get_node)
qed

lemma lookup_misses:
  assumes "ranges_disjoint t" "\<forall>c\<in>set_bg_tree t. \<not> group_contains c a"
  shows "btrfs_lookup_block_group t a = (t, None)"
proof -
  have "block_group_cache_tree_walk t a True None = None"
    using assms by (intro walk_misses[of 0 "2 ^ 64"]) (simp_all add: ranges_disjoint_def)
  then show ?thesis
    by (simp add: btrfs_lookup_block_group_def block_group_cache_tree_search_def)
qed

lemma containing_unique:
  assumes "ranges_disjoint t" "c \<in> set_bg_tree t" "group_contains c a"
    "c' \<in> set_bg_tree t" "group_contains c' a"
  shows "c = c'"
proof -
  have "block_group_cache_tree_walk t a True None = Some c"
    using assms(1,2,3) by (intro walk_contains[of 0 "2 ^ 64"]) (simp_all add: ranges_disjoint_def)
  moreover have "block_group_cache_tree_walk t a True None = Some c'"
    using assms(1,4,5) by (intro walk_contains[of 0 "2 ^ 64"]) (simp_all add: ranges_disjoint_def)
  ultimately show ?thesis by simp
qed

lemmas registry_eval_defs =
  two_groups_def overlapping_groups_def make_group_def btrfs_create_block_group_cache_def
  MiB_def BTRFS_BLOCK_GROUP_DATA_def group_contains_def group_end_def
  btrfs_add_block_group_cache_def btrfs_lookup_block_group_def
  block_group_cache_tree_search_def btrfs_get_block_group_def Let_def

text \<open>
  Claim C9, as amended.  On every registry, a tree ordered by \<open>start\<close>, inserting a
  group of nonzero length fails with \<^verbatim>\<open>-EEXIST\<close>, leaving the tree as it was, if and
  only if a group with the same start is registered, and succeeds otherwise, adding the
  group and leaving a tree ordered by \<open>start\<close>; this holds whether or not the ranges of
  the groups overlap, since the insert compares nothing but the start.  On a registry
  whose groups have non-empty ranges that do not overlap and do not wrap around the
  address space, the containing lookup of an address returns the one group whose range
  holds it, with its reference count raised in the tree, and nothing when no registered
  group holds the address.  On overlapping ranges the lookup can miss.
\<close>

theorem registry_insert_and_lookup:
  "(search_ordered t \<and> length_bg g \<noteq> 0 \<longrightarrow>
      ((btrfs_add_block_group_cache t g = Err EEXIST t)
         = (\<exists>c\<in>set_bg_tree t. start c = start g)) \<and>
      ((\<forall>c\<in>set_bg_tree t. start c \<noteq> start g) \<longrightarrow>
         (\<exists>t'. btrfs_add_block_group_cache t g = Ok t' \<and>
               set_bg_tree t' = insert g (set_bg_tree t) \<and> search_ordered t'))) \<and>
   (ranges_disjoint t \<longrightarrow>
      search_ordered t \<and>
      (\<forall>c\<in>set_bg_tree t. group_contains c a \<longrightarrow>
         btrfs_lookup_block_group t a
           = (get_node (start c) t, Some (btrfs_get_block_group c)) \<and>
         btrfs_get_block_group c \<in> set_bg_tree (get_node (start c) t) \<and>
         (\<forall>c'\<in>set_bg_tree t. group_contains c' a \<longrightarrow> c' = c)) \<and>
      ((\<forall>c\<in>set_bg_tree t. \<not> group_contains c a) \<longrightarrow>
         btrfs_lookup_block_group t a = (t, None)))"
proof (intro conjI impI)
  assume a: "search_ordered t \<and> length_bg g \<noteq> 0"
  then show "(btrfs_add_block_group_cache t g = Err EEXIST t)
         = (\<exists>c\<in>set_bg_tree t. start c = start g)"
    using add_block_group_cache_spec(1)[of t g] by blast
  show "\<exists>t'. btrfs_add_block_group_cache t g = Ok t' \<and>
               set_bg_tree t' = insert g (set_bg_tree t) \<and> search_ordered t'"
    if "\<forall>c\<in>set_bg_tree t. start c \<noteq> start g"
    using add_block_group_cache_spec(2)[of t g] a that by blast
next
  assume d: "ranges_disjoint t"
  show "search_ordered t" using d by (rule ranges_disjoint_ordered)
  show "\<forall>c\<in>set_bg_tree t. group_contains c a \<longrightarrow>
         btrfs_lookup_block_group t a
           = (get_node (start c) t, Some (btrfs_get_block_group c)) \<and>
         btrfs_get_block_group c \<in> set_bg_tree (get_node (start c) t) \<and>
         (\<forall>c'\<in>set_bg_tree t. group_contains c' a \<longrightarrow> c' = c)"
    using lookup_contains[OF d] containing_unique[OF d] by blast
  show "btrfs_lookup_block_group t a = (t, None)"
    if "\<forall>c\<in>set_bg_tree t. \<not> group_contains c a"
    using lookup_misses[OF d that] .
qed

theorem registry_insert_and_lookup_witness:
  "search_ordered overlapping_groups \<and> \<not> ranges_disjoint overlapping_groups \<and>
   btrfs_add_block_group_cache overlapping_groups (make_group 10 5 BTRFS_BLOCK_GROUP_METADATA)
     = Err EEXIST overlapping_groups \<and>
   map_option set_bg_tree
     (state_after (btrfs_add_block_group_cache overlapping_groups
        (make_group 5 50 BTRFS_BLOCK_GROUP_DATA)))
     = Some (insert (make_group 5 50 BTRFS_BLOCK_GROUP_DATA) (set_bg_tree overlapping_groups)) \<and>
   ranges_disjoint two_groups \<and>
   btrfs_add_block_group_cache two_groups (make_group (100 * MiB) MiB BTRFS_BLOCK_GROUP_METADATA)
     = Err EEXIST two_groups \<and>
   map_option set_bg_tree
     (state_after (btrfs_add_block_group_cache two_groups
        (make_group (200 * MiB) MiB BTRFS_BLOCK_GROUP_DATA)))
     = Some (insert (make_group (200 * MiB) MiB BTRFS_BLOCK_GROUP_DATA)
               (set_bg_tree two_groups)) \<and>
   btrfs_lookup_block_group two_groups (150 * MiB)
     = (get_node (100 * MiB) two_groups,
        Some (btrfs_get_block_group (make_group (100 * MiB) (100 * MiB) BTRFS_BLOCK_GROUP_DATA))) \<and>
   btrfs_lookup_block_group two_groups (200 * MiB) = (two_groups, None)"
proof -
  let ?g0 = "make_group 0 (100 * MiB) BTRFS_BLOCK_GROUP_DATA"
  let ?g1 = "make_group (100 * MiB) (100 * MiB) BTRFS_BLOCK_GROUP_DATA"
  let ?d = "make_group (100 * MiB) MiB BTRFS_BLOCK_GROUP_METADATA"
  let ?n = "make_group (200 * MiB) MiB BTRFS_BLOCK_GROUP_DATA"
  let ?o0 = "make_group 0 100 BTRFS_BLOCK_GROUP_DATA"
  let ?o1 = "make_group 10 10 BTRFS_BLOCK_GROUP_DATA"
  let ?od = "make_group 10 5 BTRFS_BLOCK_GROUP_METADATA"
  let ?on = "make_group 5 50 BTRFS_BLOCK_GROUP_DATA"
  have oo: "search_ordered overlapping_groups"
    by (simp add: search_ordered_def registry_eval_defs)
  have nd: "\<not> ranges_disjoint overlapping_groups"
    by (simp add: ranges_disjoint_def registry_eval_defs)
  have os: "set_bg_tree overlapping_groups = {?o1, ?o0}" by (simp add: overlapping_groups_def)
  have ost: "start ?o0 = 0" "start ?o1 = 10" "start ?od = 10" "start ?on = 5"
    "length_bg ?od \<noteq> 0" "length_bg ?on \<noteq> 0"
    by (simp_all add: make_group_def btrfs_create_block_group_cache_def)
  have o1: "btrfs_add_block_group_cache overlapping_groups ?od = Err EEXIST overlapping_groups"
    using registry_insert_and_lookup[of overlapping_groups ?od] oo os ost by simp
  have ofresh: "\<forall>c\<in>set_bg_tree overlapping_groups. start c \<noteq> start ?on"
    unfolding os using ost by simp
  from registry_insert_and_lookup[of overlapping_groups ?on] oo ost(6) ofresh
  obtain ot where "btrfs_add_block_group_cache overlapping_groups ?on = Ok ot"
    "set_bg_tree ot = insert ?on (set_bg_tree overlapping_groups)" by blast
  then have o2: "map_option set_bg_tree
      (state_after (btrfs_add_block_group_cache overlapping_groups ?on))
      = Some (insert ?on (set_bg_tree overlapping_groups))" by simp
  have h: "ranges_disjoint two_groups"
    by (simp add: ranges_disjoint_def registry_eval_defs)
  from registry_insert_and_lookup[of two_groups] h have so: "search_ordered two_groups" by blast
  have s: "set_bg_tree two_groups = {?g1, ?g0}" by (simp add: two_groups_def)
  have st: "start ?g0 = 0" "start ?g1 = 100 * MiB" "start ?d = 100 * MiB" "start ?n = 200 * MiB"
    "length_bg ?d \<noteq> 0" "length_bg ?n \<noteq> 0"
    by (simp_all add: make_group_def btrfs_create_block_group_cache_def MiB_def)
  have c1: "btrfs_add_block_group_cache two_groups ?d = Err EEXIST two_groups"
    using registry_insert_and_lookup[of two_groups ?d] so s st by simp
  have fresh: "\<forall>c\<in>set_bg_tree two_groups. start c \<noteq> start ?n"
    unfolding s using st by (simp add: MiB_def)
  from registry_insert_and_lookup[of two_groups ?n] so st(6) fresh
  obtain t' where "btrfs_add_block_group_cache two_groups ?n = Ok t'"
    "set_bg_tree t' = insert ?n (set_bg_tree two_groups)" by blast
  then have c2: "map_option set_bg_tree (state_after (btrfs_add_block_group_cache two_groups ?n))
      = Some (insert ?n (set_bg_tree two_groups))" by simp
  have k1: "group_contains ?g1 (150 * MiB)" by (simp add: registry_eval_defs)
  have c3: "btrfs_lookup_block_group two_groups (150 * MiB)
     = (get_node (100 * MiB) two_groups, Some (btrfs_get_block_group ?g1))"
    using registry_insert_and_lookup[of two_groups _ "150 * MiB"] h s st k1 by simp
  have k2: "\<forall>c\<in>set_bg_tree two_groups. \<not> group_contains c (200 * MiB)"
    unfolding s by (simp add: registry_eval_defs)
  have c4: "btrfs_lookup_block_group two_groups (200 * MiB) = (two_groups, None)"
    using registry_insert_and_lookup[of two_groups _ "200 * MiB"] h k2 by blast
  from oo nd o1 o2 h c1 c2 c3 c4 show ?thesis by blast
qed

text \<open>
  The claim as stated fails: after the inserts of the groups \<open>[10, 20)\<close> and
  \<open>[0, 100)\<close>, both accepted, address 50 lies in exactly one registered group and the
  lookup finds none.  A tree of two nodes is not rotated when it is rebalanced, so the
  tree below is the one the kernel holds.
\<close>

theorem registry_lookup_overlap_counterexample:
  "btrfs_add_block_group_cache Leaf (make_group 10 10 BTRFS_BLOCK_GROUP_DATA)
     = Ok (Node Leaf (make_group 10 10 BTRFS_BLOCK_GROUP_DATA) Leaf) \<and>
   btrfs_add_block_group_cache (Node Leaf (make_group 10 10 BTRFS_BLOCK_GROUP_DATA) Leaf)
       (make_group 0 100 BTRFS_BLOCK_GROUP_DATA)
     = Ok overlapping_groups \<and>
   set_bg_tree overlapping_groups
     = {make_group 10 10 BTRFS_BLOCK_GROUP_DATA, make_group 0 100 BTRFS_BLOCK_GROUP_DATA} \<and>
   group_contains (make_group 0 100 BTRFS_BLOCK_GROUP_DATA) 50 \<and>
   \<not> group_contains (make_group 10 10 BTRFS_BLOCK_GROUP_DATA) 50 \<and>
   btrfs_lookup_block_group overlapping_groups 50 = (overlapping_groups, None)"
  by (simp add: registry_eval_defs)

section \<open>The caching scan\<close>

lemma add_new_free_space_clear:
  assumes out: "excluded_outside env bg" and lo: "start bg \<le> st"
    and hi: "e \<le> start bg + length_bg bg"
  shows "btrfs_add_new_free_space env st e (ctl, tot) =
     Some (if st < e then (ctl @ [(st, e - st)], tot + (e - st)) else (ctl, tot))"
proof (cases "find_first_extent_bit (excluded_extents env) st")
  case None
  then show ?thesis
    by (subst btrfs_add_new_free_space.simps)
       (simp add: btrfs_add_free_space_async_trimmed_def)
next
  case (Some x)
  obtain es ee where x: "x = (es, ee)" by (cases x)
  from Some x obtain i where i: "i < length (excluded_extents env)"
    "excluded_extents env ! i = (es, ee)" and ge: "st \<le> ee"
    by (auto simp: find_first_extent_bit_def find_Some_iff)
  from i have mem: "(es, ee) \<in> set (excluded_extents env)" using nth_mem by fastforce
  from out mem have "ee < start bg \<or> start bg + length_bg bg \<le> es"
    by (auto simp: excluded_outside_def list_all_iff)
  with lo ge have "start bg + length_bg bg \<le> es" by auto
  with hi have far: "e \<le> es" by simp
  then have "st < e \<Longrightarrow> \<not> es \<le> st" "\<not> es < e" by auto
  with Some x show ?thesis
    by (subst btrfs_add_new_free_space.simps)
       (auto simp add: btrfs_add_free_space_async_trimmed_def)
qed

lemma extents_in_order_le: "extents_in_order lo hi xs \<Longrightarrow> lo \<le> hi"
  by (induction xs arbitrary: lo) (auto split: prod.splits)

lemma extents_in_order_lower:
  "extents_in_order lo hi xs \<Longrightarrow> x \<in> set xs \<Longrightarrow> lo \<le> unat (fst x)"
proof (induction xs arbitrary: lo)
  case Nil
  then show ?case by simp
next
  case (Cons y ys)
  obtain s l where y: "y = (s, l)" by (cases y)
  from Cons.prems(1) y have lo: "lo \<le> unat s"
    and rest: "extents_in_order (unat s + unat l) hi ys" by simp_all
  from Cons.prems(2) consider "x = y" | "x \<in> set ys" by auto
  then show ?case
  proof cases
    case 1
    with y lo show ?thesis by simp
  next
    case 2
    from Cons.IH[OF rest 2] lo show ?thesis by simp
  qed
qed

lemma filter_dropWhile_same:
  "(\<And>x. x \<in> set xs \<Longrightarrow> Q x \<Longrightarrow> \<not> P x) \<Longrightarrow> filter Q (dropWhile P xs) = filter Q xs"
  by (induction xs) auto

lemma used_not_before:
  assumes "used_extent_key k" "last_pos \<le> objectid k"
  shows "\<not> key_before k \<lparr>objectid = last_pos, type = BTRFS_EXTENT_ITEM_KEY, offset = 0\<rparr>"
  using assms
  by (auto simp: key_before_def used_extent_key_def BTRFS_EXTENT_ITEM_KEY_def
      BTRFS_METADATA_ITEM_KEY_def)

lemma search_slot_keeps_used:
  assumes "extents_in_order (unat last_pos) hi (scan_used_extents_in_range env bg keys)"
  shows "scan_used_extents_in_range env bg
           (btrfs_search_slot \<lparr>objectid = last_pos, type = BTRFS_EXTENT_ITEM_KEY, offset = 0\<rparr> keys)
         = scan_used_extents_in_range env bg keys"
proof -
  have "\<not> key_before k \<lparr>objectid = last_pos, type = BTRFS_EXTENT_ITEM_KEY, offset = 0\<rparr>"
    if k: "k \<in> set keys" and q: "key_in_group bg k \<and> used_extent_key k" for k
  proof -
    from k q have "used_extent_record env k \<in> set (scan_used_extents_in_range env bg keys)"
      by (simp add: scan_used_extents_in_range_def)
    from extents_in_order_lower[OF assms this] have "last_pos \<le> objectid k"
      by (simp add: used_extent_record_def word_le_nat_alt)
    with q show ?thesis by (simp add: used_not_before)
  qed
  then show ?thesis
    unfolding scan_used_extents_in_range_def btrfs_search_slot_def
    by (simp add: filter_dropWhile_same)
qed

lemma sorted_search_slot:
  "sorted_wrt R keys \<Longrightarrow> sorted_wrt R (btrfs_search_slot key keys)"
  unfolding btrfs_search_slot_def dropWhile_eq_drop by (rule sorted_wrt_drop)

lemma beyond_group_no_used:
  assumes "sorted_wrt (\<lambda>a b. objectid a \<le> objectid b) (key # rest)"
    and "start bg + length_bg bg \<le> objectid key"
  shows "scan_used_extents_in_range env bg (key # rest) = []"
proof -
  from assms have "\<forall>k\<in>set (key # rest). start bg + length_bg bg \<le> objectid k" by auto
  then have "\<forall>k\<in>set (key # rest). \<not> key_in_group bg k"
    by (auto simp: key_in_group_def)
  then show ?thesis by (simp add: scan_used_extents_in_range_def)
qed

lemma walk_gaps:
  assumes nc: "\<not> fs_closing env"
    and nw: "unat (start bg) + unat (length_bg bg) < 2 ^ 64"
    and ex: "excluded_outside env bg"
  shows "sorted_wrt (\<lambda>a b. objectid a \<le> objectid b) keys \<Longrightarrow>
         start bg \<le> last_pos \<Longrightarrow>
         extents_in_order (unat last_pos) (unat (start bg) + unat (length_bg bg))
           (scan_used_extents_in_range env bg keys) \<Longrightarrow>
         scan_result env bg (extent_tree_walk env bg last_pos ctl keys)
           = Some (ctl @ spec_gaps last_pos (start bg + length_bg bg)
                           (scan_used_extents_in_range env bg keys))"
proof (induction keys arbitrary: last_pos ctl rule: length_induct)
  case (1 keys)
  let ?hi = "unat (start bg) + unat (length_bg bg)"
  let ?e = "start bg + length_bg bg"
  have e: "unat ?e = ?hi" using nw by (simp add: unat_add_lem[THEN iffD1])
  from extents_in_order_le[OF "1.prems"(3)] have le: "last_pos \<le> ?e"
    by (simp add: word_le_nat_alt e)
  show ?case
  proof (cases keys)
    case Nil
    then show ?thesis
      using add_new_free_space_clear[OF ex "1.prems"(2), of ?e ctl 0]
      by (simp add: scan_result_def nc scan_used_extents_in_range_def)
  next
    case (Cons key rest)
    have srest: "sorted_wrt (\<lambda>a b. objectid a \<le> objectid b) rest"
      using "1.prems"(1) Cons by simp
    consider (again) "objectid key < last_pos"
      | (beyond) "\<not> objectid key < last_pos" "?e \<le> objectid key"
      | (used) "\<not> objectid key < last_pos" "\<not> ?e \<le> objectid key" "used_extent_key key"
      | (other) "\<not> objectid key < last_pos" "\<not> ?e \<le> objectid key" "\<not> used_extent_key key"
      by blast
    then show ?thesis
    proof cases
      case again
      let ?K = "\<lparr>objectid = last_pos, type = BTRFS_EXTENT_ITEM_KEY, offset = 0\<rparr>"
      let ?ks = "btrfs_search_slot ?K keys"
      have kb: "key_before key ?K" using again by (simp add: key_before_def)
      then have "?ks = btrfs_search_slot ?K rest" using Cons by (simp add: btrfs_search_slot_def)
      then have len: "length ?ks < length keys"
        using Cons by (simp add: btrfs_search_slot_def le_imp_less_Suc length_dropWhile_le)
      have su: "scan_used_extents_in_range env bg ?ks = scan_used_extents_in_range env bg keys"
        using "1.prems"(3) by (rule search_slot_keeps_used)
      have "scan_result env bg (extent_tree_walk env bg last_pos ctl ?ks)
           = Some (ctl @ spec_gaps last_pos ?e (scan_used_extents_in_range env bg ?ks))"
        using "1.IH" len sorted_search_slot[OF "1.prems"(1)] "1.prems"(2,3) su by simp
      with su again Cons show ?thesis by (simp add: nc)
    next
      case beyond
      have "scan_used_extents_in_range env bg keys = []"
        using beyond_group_no_used[of key rest bg env] "1.prems"(1) Cons beyond(2) by simp
      moreover have "\<not> objectid key < start bg" using beyond(1) "1.prems"(2) by auto
      ultimately show ?thesis
        using Cons beyond add_new_free_space_clear[OF ex "1.prems"(2), of ?e ctl 0]
        by (simp add: nc scan_result_def)
    next
      case used
      have ns: "\<not> objectid key < start bg" using used(1) "1.prems"(2) by auto
      then have ig: "key_in_group bg key" using used(2) by (auto simp: key_in_group_def)
      define l where "l = (if type key = BTRFS_METADATA_ITEM_KEY then nodesize env else offset key)"
      let ?s = "objectid key"
      have su: "scan_used_extents_in_range env bg (key # rest)
          = (?s, l) # scan_used_extents_in_range env bg rest"
        using ig used(3) by (simp add: scan_used_extents_in_range_def used_extent_record_def l_def)
      from "1.prems"(3) su Cons have hi: "unat ?s < ?hi"
        and ro: "extents_in_order (unat ?s + unat l) ?hi (scan_used_extents_in_range env bg rest)"
        by simp_all
      from extents_in_order_le[OF ro] nw have sl: "unat (?s + l) = unat ?s + unat l"
        by (simp add: unat_add_lem[THEN iffD1])
      have "unat (start bg) \<le> unat ?s" using ns by (simp add: word_less_nat_alt)
      then have st: "start bg \<le> ?s + l" using sl by (simp add: word_le_nat_alt)
      have ole: "objectid key \<le> ?e" using used(2) by simp
      have ih: "scan_result env bg (extent_tree_walk env bg (?s + l) ctl' rest)
           = Some (ctl' @ spec_gaps (?s + l) ?e (scan_used_extents_in_range env bg rest))" for ctl'
        using "1.IH" Cons srest st ro sl by simp
      have fs: "btrfs_add_new_free_space env last_pos (objectid key) (ctl, 0)
          = Some (if last_pos < objectid key
                  then (ctl @ [(last_pos, objectid key - last_pos)], 0 + (objectid key - last_pos))
                  else (ctl, 0))"
        using ex "1.prems"(2) ole by (rule add_new_free_space_clear)
      have ty: "type key = BTRFS_EXTENT_ITEM_KEY \<or> type key = BTRFS_METADATA_ITEM_KEY"
        using used(3) by (simp add: used_extent_key_def)
      have nxt: "(if type key = BTRFS_METADATA_ITEM_KEY then objectid key + nodesize env
                else objectid key + offset key) = ?s + l"
        by (simp add: l_def)
      show ?thesis
        unfolding Cons using used(1,2) ns ty
        by (simp add: nc fs su ih nxt)
    next
      case other
      have ns: "\<not> objectid key < start bg" using other(1) "1.prems"(2) by auto
      have su: "scan_used_extents_in_range env bg keys = scan_used_extents_in_range env bg rest"
        using Cons other(3) by (simp add: scan_used_extents_in_range_def)
      have "scan_result env bg (extent_tree_walk env bg last_pos ctl rest)
           = Some (ctl @ spec_gaps last_pos ?e (scan_used_extents_in_range env bg rest))"
        using "1.IH" Cons srest "1.prems"(2,3) su by simp
      moreover have "\<not> (type key = BTRFS_EXTENT_ITEM_KEY \<or> type key = BTRFS_METADATA_ITEM_KEY)"
        using other(3) by (simp add: used_extent_key_def)
      ultimately show ?thesis using Cons other(1,2) ns su by (simp add: nc)
    qed
  qed
qed

lemma key_before_objectid: "key_before a b \<Longrightarrow> objectid a \<le> objectid b"
  by (auto simp: key_before_def)

lemmas scan_eval_defs =
  load_extent_tree_free_def quiet_caching_env_def make_group_def
  btrfs_create_block_group_cache_def btrfs_search_slot_def key_before_def extent_item_def
  BTRFS_EXTENT_ITEM_KEY_def BTRFS_METADATA_ITEM_KEY_def find_first_extent_bit_def
  btrfs_add_free_space_async_trimmed_def BTRFS_BLOCK_GROUP_DATA_def free_total_def Let_def
  example_caching_env_def example_extent_root_def scan_used_extents_in_range_def
  key_in_group_def used_extent_key_def used_extent_record_def excluded_outside_def

text \<open>
  Claim C7, as amended.  For a group that starts at or above the primary superblock
  offset, whose range does not reach the end of the address space and is reached into by
  no excluded range, and with the scan not cut short by an unmount, the scan of a sorted
  extent tree inserts exactly the gaps between the consecutive used-extent records that
  the tree holds inside the range of the group and the tail gap up to the end of the group,
  provided these records are in order and inside the range.  The records are the data
  extents and the tree blocks; the tree may hold any other items, and any excluded ranges
  may lie outside the group.  A non-empty group without a used extent gets one record for
  its whole range, a fully used group gets none, and the used ranges \<open>[S, S+10)\<close> and
  \<open>[S+20, S+30)\<close> of the group \<open>[S, S+40)\<close> give the free ranges \<open>[S+10, S+20)\<close> and
  \<open>[S+30, S+40)\<close>, 20 bytes in all.  The scan starts at
  \<open>max(start, BTRFS_SUPER_INFO_OFFSET)\<close>, and \<^verbatim>\<open>btrfs_add_new_free_space\<close> leaves the
  excluded superblock ranges out of what it inserts.
\<close>

theorem caching_scan_yields_gaps:
  assumes "\<not> fs_closing env"
    and "BTRFS_SUPER_INFO_OFFSET env \<le> start bg"
    and "unat (start bg) + unat (length_bg bg) < 2 ^ 64"
    and "excluded_outside env bg"
    and "sorted_wrt key_before extent_root"
    and "extents_in_order (unat (start bg)) (unat (start bg) + unat (length_bg bg))
           (scan_used_extents_in_range env bg extent_root)"
  shows "load_extent_tree_free env bg extent_root
           = Some (spec_gaps (start bg) (start bg + length_bg bg)
                     (scan_used_extents_in_range env bg extent_root)) \<and>
         (scan_used_extents_in_range env bg extent_root = [] \<and> length_bg bg \<noteq> 0 \<longrightarrow>
            load_extent_tree_free env bg extent_root = Some [(start bg, length_bg bg)]) \<and>
         (scan_used_extents_in_range env bg extent_root = [(start bg, length_bg bg)] \<longrightarrow>
            load_extent_tree_free env bg extent_root = Some [])"
proof -
  let ?e = "start bg + length_bg bg"
  let ?K = "\<lparr>objectid = start bg, type = BTRFS_EXTENT_ITEM_KEY, offset = 0\<rparr>"
  let ?ks = "btrfs_search_slot ?K extent_root"
  have m: "max (start bg) (BTRFS_SUPER_INFO_OFFSET env) = start bg"
    using assms(2) by (simp add: max_def)
  have e: "unat ?e = unat (start bg) + unat (length_bg bg)"
    using assms(3) by (simp add: unat_add_lem[THEN iffD1])
  have so: "sorted_wrt (\<lambda>a b. objectid a \<le> objectid b) extent_root"
    using assms(5) by (rule sorted_wrt_mono_rel[rotated]) (simp add: key_before_objectid)
  have su: "scan_used_extents_in_range env bg ?ks = scan_used_extents_in_range env bg extent_root"
    using assms(6) by (rule search_slot_keeps_used)
  have "scan_result env bg (extent_tree_walk env bg (start bg) [] ?ks)
        = Some ([] @ spec_gaps (start bg) ?e (scan_used_extents_in_range env bg ?ks))"
    using assms(1,3,4) sorted_search_slot[OF so] _ assms(6)[folded su]
    by (rule walk_gaps) simp
  then have main: "load_extent_tree_free env bg extent_root
           = Some (spec_gaps (start bg) ?e (scan_used_extents_in_range env bg extent_root))"
    by (simp add: load_extent_tree_free_def Let_def m su scan_result_def)
  have "0 < unat (length_bg bg)" if "length_bg bg \<noteq> 0" using that by (simp add: unat_gt_0)
  with e have lt: "start bg < ?e" if "length_bg bg \<noteq> 0" using that by (simp add: word_less_nat_alt)
  from main lt show ?thesis by auto
qed

theorem caching_scan_yields_gaps_witness:
  "load_extent_tree_free example_caching_env (make_group 1048576 40 BTRFS_BLOCK_GROUP_DATA) []
     = Some [(1048576, 40)] \<and>
   load_extent_tree_free example_caching_env (make_group 1048576 40 BTRFS_BLOCK_GROUP_DATA)
     [extent_item (1048576, 40)] = Some [] \<and>
   scan_used_extents_in_range example_caching_env (make_group 1048576 40 BTRFS_BLOCK_GROUP_DATA)
     example_extent_root = [(1048576, 10), (1048596, 10)] \<and>
   load_extent_tree_free example_caching_env (make_group 1048576 40 BTRFS_BLOCK_GROUP_DATA)
     example_extent_root = Some [(1048586, 10), (1048606, 10)] \<and>
   free_total [(1048586, 10), (1048606, 10)] = 20"
proof -
  let ?env = example_caching_env
  let ?bg = "make_group 1048576 40 BTRFS_BLOCK_GROUP_DATA"
  have h1: "\<not> fs_closing ?env" and h2: "BTRFS_SUPER_INFO_OFFSET ?env \<le> start ?bg"
    and h3: "unat (start ?bg) + unat (length_bg ?bg) < 2 ^ 64"
    and h4: "excluded_outside ?env ?bg" and h5: "length_bg ?bg \<noteq> 0"
    by (simp_all add: scan_eval_defs)
  have sl: "start ?bg = 1048576" "length_bg ?bg = 40"
    by (simp_all add: make_group_def btrfs_create_block_group_cache_def)
  have s0: "sorted_wrt key_before []" by simp
  have u0: "scan_used_extents_in_range ?env ?bg [] = []"
    by (simp add: scan_used_extents_in_range_def)
  have o0: "extents_in_order (unat (start ?bg)) (unat (start ?bg) + unat (length_bg ?bg))
              (scan_used_extents_in_range ?env ?bg [])"
    by (simp add: u0)
  have s1: "sorted_wrt key_before [extent_item (1048576, 40)]" by simp
  have u1: "scan_used_extents_in_range ?env ?bg [extent_item (1048576, 40)]
      = [(start ?bg, length_bg ?bg)]"
    by (simp add: scan_eval_defs)
  have o1: "extents_in_order (unat (start ?bg)) (unat (start ?bg) + unat (length_bg ?bg))
              (scan_used_extents_in_range ?env ?bg [extent_item (1048576, 40)])"
    by (simp add: u1 sl)
  have s2: "sorted_wrt key_before example_extent_root" by (simp add: scan_eval_defs)
  have u2: "scan_used_extents_in_range ?env ?bg example_extent_root
      = [(1048576, 10), (1048596, 10)]"
    by (simp add: scan_eval_defs)
  have o2: "extents_in_order (unat (start ?bg)) (unat (start ?bg) + unat (length_bg ?bg))
              (scan_used_extents_in_range ?env ?bg example_extent_root)"
    by (simp add: u2 sl)
  from caching_scan_yields_gaps[OF h1 h2 h3 h4 s0 o0] u0 h5
  have c1: "load_extent_tree_free ?env ?bg [] = Some [(1048576, 40)]" by (simp add: sl)
  from caching_scan_yields_gaps[OF h1 h2 h3 h4 s1 o1] u1
  have c2: "load_extent_tree_free ?env ?bg [extent_item (1048576, 40)] = Some []" by blast
  from caching_scan_yields_gaps[OF h1 h2 h3 h4 s2 o2]
  have c3: "load_extent_tree_free ?env ?bg example_extent_root
      = Some [(1048586, 10), (1048606, 10)]"
    by (simp add: u2 sl)
  have c4: "free_total [(1048586, 10), (1048606, 10)] = 20" by (simp add: free_total_def)
  from c1 c2 u2 c3 c4 show ?thesis by blast
qed

text \<open>
  The claim as stated fails: with the superblock offset at 64 KiB the group \<open>[0, 40)\<close>
  with the used ranges \<open>[0, 10)\<close> and \<open>[20, 30)\<close> gets no free record at all, and a
  group without used extents that holds an excluded range gets two records, not one.
\<close>

theorem caching_scan_low_group_counterexample:
  "load_extent_tree_free (quiet_caching_env 65536) (make_group 0 40 BTRFS_BLOCK_GROUP_DATA)
     (map extent_item [(0, 10), (20, 10)]) = Some [] \<and>
   load_extent_tree_free ((quiet_caching_env 65536)\<lparr>excluded_extents := [(1048592, 1048595)]\<rparr>)
     (make_group 1048576 40 BTRFS_BLOCK_GROUP_DATA) []
     = Some [(1048576, 16), (1048596, 20)]"
  by (simp add: scan_eval_defs btrfs_add_new_free_space.simps)

section \<open>The reclaim pass\<close>


























end
